theory Spec2Isabelle
  imports Main "HOL-Library.Sublist" "HOL-Library.Word"
begin

section \<open>Values of the address module\<close>

text \<open>
  The module \<^verbatim>\<open>capa/features/address.py\<close> declares an abstract class \<^verbatim>\<open>Address\<close> and
  nine concrete classes. Four of them (\<^verbatim>\<open>AbsoluteVirtualAddress\<close>,
  \<^verbatim>\<open>RelativeVirtualAddress\<close>, \<^verbatim>\<open>FileOffsetAddress\<close>, \<^verbatim>\<open>DNTokenAddress\<close>) list \<^verbatim>\<open>int\<close>
  before \<^verbatim>\<open>Address\<close> among their bases: their value is the integer itself and the
  comparison methods they run are those of \<^verbatim>\<open>int\<close>. The other five keep their fields as
  attributes and define \<^verbatim>\<open>__eq__\<close> and \<^verbatim>\<open>__lt__\<close> themselves.

  Python integers are unbounded, hence \<^typ>\<open>int\<close>. Exceptions are values of type
  \<open>error\<close>; an operation that may raise returns \<open>error + 'a\<close>.
\<close>

datatype error = AssertionError | AttributeError | TypeError | ValueError

record ProcessAddress_fields =
  ppid :: int
  pid :: int

record ThreadAddress_fields =
  process :: ProcessAddress_fields
  tid :: int

record DynamicAddress_fields =
  id_field :: int
  return_address :: int

record DNTokenOffsetAddress_fields =
  token :: int
  offset :: int

datatype address =
    AbsoluteVirtualAddress int
  | ProcessAddress ProcessAddress_fields
  | ThreadAddress ThreadAddress_fields
  | DynamicAddress DynamicAddress_fields
  | RelativeVirtualAddress int
  | FileOffsetAddress int
  | DNTokenAddress int
  | DNTokenOffsetAddress DNTokenOffsetAddress_fields
  | NO_ADDRESS

text \<open>A Python object that reaches a comparison: a plain \<^verbatim>\<open>int\<close> or an address.\<close>

datatype pyobj = PyInt int | Addr address

text \<open>The class of an address, and the classes that derive from \<^verbatim>\<open>int\<close>.\<close>

datatype variant =
    Absolute | Process | Thread | Dynamic | Relative | FileOffset | DNToken | DNTokenOffset
  | Sentinel

fun variant_of :: "address \<Rightarrow> variant" where
  "variant_of (AbsoluteVirtualAddress _) = Absolute"
| "variant_of (ProcessAddress _) = Process"
| "variant_of (ThreadAddress _) = Thread"
| "variant_of (DynamicAddress _) = Dynamic"
| "variant_of (RelativeVirtualAddress _) = Relative"
| "variant_of (FileOffsetAddress _) = FileOffset"
| "variant_of (DNTokenAddress _) = DNToken"
| "variant_of (DNTokenOffsetAddress _) = DNTokenOffset"
| "variant_of NO_ADDRESS = Sentinel"

fun address_int :: "address \<Rightarrow> int option" where
  "address_int (AbsoluteVirtualAddress v) = Some v"
| "address_int (RelativeVirtualAddress v) = Some v"
| "address_int (FileOffsetAddress v) = Some v"
| "address_int (DNTokenAddress v) = Some v"
| "address_int _ = None"

text \<open>\<^verbatim>\<open>isinstance(x, int)\<close>, giving the integer value when it holds.\<close>

fun int_value :: "pyobj \<Rightarrow> int option" where
  "int_value (PyInt v) = Some v"
| "int_value (Addr a) = address_int a"

definition int_backed :: "address \<Rightarrow> bool" where
  "int_backed a = (address_int a \<noteq> None)"

section \<open>Constructors\<close>

text \<open>
  Each \<^verbatim>\<open>assert\<close> of a constructor is a branch that returns \<open>AssertionError\<close>; the
  asserts run in the order of the source. \<^verbatim>\<open>RelativeVirtualAddress\<close> inherits
  \<^verbatim>\<open>int.__new__\<close> and \<^verbatim>\<open>DNTokenAddress.__new__\<close> has no assert. The \<^verbatim>\<open>process\<close> argument
  of \<^verbatim>\<open>ThreadAddress\<close> is annotated \<^verbatim>\<open>ProcessAddress\<close>: it is an object that was
  constructed before.
\<close>

definition new_AbsoluteVirtualAddress :: "int \<Rightarrow> error + address" where
  "new_AbsoluteVirtualAddress v =
     (if v \<ge> 0 then Inr (AbsoluteVirtualAddress v) else Inl AssertionError)"

definition init_ProcessAddress :: "int \<Rightarrow> int \<Rightarrow> error + address" where
  "init_ProcessAddress pid_arg ppid_arg =
     (if ppid_arg \<ge> 0
      then (if pid_arg > 0
            then Inr (ProcessAddress \<lparr>ppid = ppid_arg, pid = pid_arg\<rparr>)
            else Inl AssertionError)
      else Inl AssertionError)"

definition init_ThreadAddress :: "ProcessAddress_fields \<Rightarrow> int \<Rightarrow> error + address" where
  "init_ThreadAddress process_arg tid_arg =
     (if tid_arg \<ge> 0
      then Inr (ThreadAddress \<lparr>process = process_arg, tid = tid_arg\<rparr>)
      else Inl AssertionError)"

definition init_DynamicAddress :: "int \<Rightarrow> int \<Rightarrow> error + address" where
  "init_DynamicAddress id_arg return_address_arg =
     (if id_arg \<ge> 0
      then (if return_address_arg \<ge> 0
            then Inr (DynamicAddress \<lparr>id_field = id_arg, return_address = return_address_arg\<rparr>)
            else Inl AssertionError)
      else Inl AssertionError)"

definition new_RelativeVirtualAddress :: "int \<Rightarrow> error + address" where
  "new_RelativeVirtualAddress v = Inr (RelativeVirtualAddress v)"

definition new_FileOffsetAddress :: "int \<Rightarrow> error + address" where
  "new_FileOffsetAddress v =
     (if v \<ge> 0 then Inr (FileOffsetAddress v) else Inl AssertionError)"

definition new_DNTokenAddress :: "int \<Rightarrow> error + address" where
  "new_DNTokenAddress token_arg = Inr (DNTokenAddress token_arg)"

definition init_DNTokenOffsetAddress :: "int \<Rightarrow> int \<Rightarrow> error + address" where
  "init_DNTokenOffsetAddress token_arg offset_arg =
     (if offset_arg \<ge> 0
      then Inr (DNTokenOffsetAddress \<lparr>token = token_arg, offset = offset_arg\<rparr>)
      else Inl AssertionError)"

section \<open>Attribute access on the other operand\<close>

text \<open>
  The comparison methods read the fields of \<^verbatim>\<open>other\<close> without looking at its class
  (only \<^verbatim>\<open>ProcessAddress.__eq__\<close> and \<^verbatim>\<open>ThreadAddress.__eq__\<close> assert it first). The
  attribute names of the classes are pairwise disjoint and no \<^verbatim>\<open>int\<close> has any of them,
  so \<^verbatim>\<open>other.ppid\<close> succeeds on a \<^verbatim>\<open>ProcessAddress\<close> and raises \<open>AttributeError\<close>
  on every other object; likewise for the other classes.
\<close>

fun attrs_ProcessAddress :: "pyobj \<Rightarrow> error + ProcessAddress_fields" where
  "attrs_ProcessAddress (Addr (ProcessAddress p)) = Inr p"
| "attrs_ProcessAddress _ = Inl AttributeError"

fun attrs_ThreadAddress :: "pyobj \<Rightarrow> error + ThreadAddress_fields" where
  "attrs_ThreadAddress (Addr (ThreadAddress t)) = Inr t"
| "attrs_ThreadAddress _ = Inl AttributeError"

fun attrs_DynamicAddress :: "pyobj \<Rightarrow> error + DynamicAddress_fields" where
  "attrs_DynamicAddress (Addr (DynamicAddress d)) = Inr d"
| "attrs_DynamicAddress _ = Inl AttributeError"

fun attrs_DNTokenOffsetAddress :: "pyobj \<Rightarrow> error + DNTokenOffsetAddress_fields" where
  "attrs_DNTokenOffsetAddress (Addr (DNTokenOffsetAddress d)) = Inr d"
| "attrs_DNTokenOffsetAddress _ = Inl AttributeError"

section \<open>Tuple comparison\<close>

text \<open>
  Python compares two tuples of length two by looking for the first position whose items
  are not equal (with \<^verbatim>\<open>==\<close> of the items). For \<^verbatim>\<open>==\<close> the result is whether there is no
  such position; for \<^verbatim>\<open><\<close> it is \<^verbatim>\<open><\<close> of the items at that position, and false when
  there is none (the lengths are equal). The item comparisons are parameters, since an
  item is an integer or, in \<^verbatim>\<open>ThreadAddress\<close>, a \<^verbatim>\<open>ProcessAddress\<close>.
\<close>

definition tuple2_eq ::
  "('a \<Rightarrow> 'a \<Rightarrow> error + bool) \<Rightarrow> ('b \<Rightarrow> 'b \<Rightarrow> error + bool) \<Rightarrow>
   'a \<times> 'b \<Rightarrow> 'a \<times> 'b \<Rightarrow> error + bool" where
  "tuple2_eq eq1 eq2 s t =
     (case eq1 (fst s) (fst t) of
        Inl e \<Rightarrow> Inl e
      | Inr b1 \<Rightarrow> if b1 then eq2 (snd s) (snd t) else Inr False)"

definition tuple2_lt ::
  "('a \<Rightarrow> 'a \<Rightarrow> error + bool) \<Rightarrow> ('a \<Rightarrow> 'a \<Rightarrow> error + bool) \<Rightarrow>
   ('b \<Rightarrow> 'b \<Rightarrow> error + bool) \<Rightarrow> ('b \<Rightarrow> 'b \<Rightarrow> error + bool) \<Rightarrow>
   'a \<times> 'b \<Rightarrow> 'a \<times> 'b \<Rightarrow> error + bool" where
  "tuple2_lt eq1 lt1 eq2 lt2 s t =
     (case eq1 (fst s) (fst t) of
        Inl e \<Rightarrow> Inl e
      | Inr b1 \<Rightarrow>
          if b1
          then (case eq2 (snd s) (snd t) of
                  Inl e \<Rightarrow> Inl e
                | Inr b2 \<Rightarrow> if b2 then Inr False else lt2 (snd s) (snd t))
          else lt1 (fst s) (fst t))"

definition eq_int_items :: "int \<Rightarrow> int \<Rightarrow> error + bool" where
  "eq_int_items x y = Inr (x = y)"

definition lt_int_items :: "int \<Rightarrow> int \<Rightarrow> error + bool" where
  "lt_int_items x y = Inr (x < y)"

section \<open>The comparison methods of the classes\<close>

text \<open>
  A method \<^verbatim>\<open>C.__eq__\<close> of the source is the constant \<open>C_eq\<close>, and likewise
  \<open>C_lt\<close>, \<open>C_hash\<close> and \<open>C_repr\<close>; the methods of \<^verbatim>\<open>_NoAddress\<close> are
  \<open>NoAddress_eq\<close> and so on.

  \<^verbatim>\<open>int.__eq__\<close>, \<^verbatim>\<open>int.__lt__\<close> and \<^verbatim>\<open>int.__gt__\<close> return \<^verbatim>\<open>NotImplemented\<close> when the
  other operand is not an \<^verbatim>\<open>int\<close>; the interpreter then tries the other operand's method.
\<close>

datatype cmp = NotImplemented | Result bool

definition int_eq :: "int \<Rightarrow> pyobj \<Rightarrow> cmp" where
  "int_eq self other =
     (case int_value other of None \<Rightarrow> NotImplemented | Some v \<Rightarrow> Result (self = v))"

definition int_lt :: "int \<Rightarrow> pyobj \<Rightarrow> cmp" where
  "int_lt self other =
     (case int_value other of None \<Rightarrow> NotImplemented | Some v \<Rightarrow> Result (self < v))"

definition int_gt :: "int \<Rightarrow> pyobj \<Rightarrow> cmp" where
  "int_gt self other =
     (case int_value other of None \<Rightarrow> NotImplemented | Some v \<Rightarrow> Result (self > v))"

definition ProcessAddress_eq :: "ProcessAddress_fields \<Rightarrow> pyobj \<Rightarrow> error + bool" where
  "ProcessAddress_eq self other =
     (case other of
        Addr (ProcessAddress p) \<Rightarrow>
          tuple2_eq eq_int_items eq_int_items (ppid self, pid self) (ppid p, pid p)
      | _ \<Rightarrow> Inl AssertionError)"

definition ProcessAddress_lt :: "ProcessAddress_fields \<Rightarrow> pyobj \<Rightarrow> error + bool" where
  "ProcessAddress_lt self other =
     (case attrs_ProcessAddress other of
        Inl e \<Rightarrow> Inl e
      | Inr p \<Rightarrow>
          tuple2_lt eq_int_items lt_int_items eq_int_items lt_int_items
            (ppid self, pid self) (ppid p, pid p))"

text \<open>
  The first item of a \<^verbatim>\<open>ThreadAddress\<close> tuple is its \<^verbatim>\<open>ProcessAddress\<close>: the items are
  compared by the methods of that class. (The interpreter takes two identical items as
  equal without calling \<^verbatim>\<open>__eq__\<close>; \<^verbatim>\<open>ProcessAddress.__eq__\<close> gives the same answer on
  them.)
\<close>

definition eq_process_items :: "ProcessAddress_fields \<Rightarrow> ProcessAddress_fields \<Rightarrow> error + bool" where
  "eq_process_items p q = ProcessAddress_eq p (Addr (ProcessAddress q))"

definition lt_process_items :: "ProcessAddress_fields \<Rightarrow> ProcessAddress_fields \<Rightarrow> error + bool" where
  "lt_process_items p q = ProcessAddress_lt p (Addr (ProcessAddress q))"

definition ThreadAddress_eq :: "ThreadAddress_fields \<Rightarrow> pyobj \<Rightarrow> error + bool" where
  "ThreadAddress_eq self other =
     (case other of
        Addr (ThreadAddress t) \<Rightarrow>
          tuple2_eq eq_process_items eq_int_items (process self, tid self) (process t, tid t)
      | _ \<Rightarrow> Inl AssertionError)"

definition ThreadAddress_lt :: "ThreadAddress_fields \<Rightarrow> pyobj \<Rightarrow> error + bool" where
  "ThreadAddress_lt self other =
     (case attrs_ThreadAddress other of
        Inl e \<Rightarrow> Inl e
      | Inr t \<Rightarrow>
          tuple2_lt eq_process_items lt_process_items eq_int_items lt_int_items
            (process self, tid self) (process t, tid t))"

definition DynamicAddress_eq :: "DynamicAddress_fields \<Rightarrow> pyobj \<Rightarrow> error + bool" where
  "DynamicAddress_eq self other =
     (case attrs_DynamicAddress other of
        Inl e \<Rightarrow> Inl e
      | Inr d \<Rightarrow>
          tuple2_eq eq_int_items eq_int_items
            (id_field self, return_address self) (id_field d, return_address d))"

definition DynamicAddress_lt :: "DynamicAddress_fields \<Rightarrow> pyobj \<Rightarrow> error + bool" where
  "DynamicAddress_lt self other =
     (case attrs_DynamicAddress other of
        Inl e \<Rightarrow> Inl e
      | Inr d \<Rightarrow>
          tuple2_lt eq_int_items lt_int_items eq_int_items lt_int_items
            (id_field self, return_address self) (id_field d, return_address d))"

definition DNTokenOffsetAddress_eq ::
  "DNTokenOffsetAddress_fields \<Rightarrow> pyobj \<Rightarrow> error + bool" where
  "DNTokenOffsetAddress_eq self other =
     (case attrs_DNTokenOffsetAddress other of
        Inl e \<Rightarrow> Inl e
      | Inr d \<Rightarrow>
          tuple2_eq eq_int_items eq_int_items (token self, offset self) (token d, offset d))"

definition DNTokenOffsetAddress_lt ::
  "DNTokenOffsetAddress_fields \<Rightarrow> pyobj \<Rightarrow> error + bool" where
  "DNTokenOffsetAddress_lt self other =
     (case attrs_DNTokenOffsetAddress other of
        Inl e \<Rightarrow> Inl e
      | Inr d \<Rightarrow>
          tuple2_lt eq_int_items lt_int_items eq_int_items lt_int_items
            (token self, offset self) (token d, offset d))"

definition NoAddress_eq :: "pyobj \<Rightarrow> error + bool" where
  "NoAddress_eq other = Inr True"

definition NoAddress_lt :: "pyobj \<Rightarrow> error + bool" where
  "NoAddress_lt other = Inr False"

section \<open>Method lookup and the comparison operators\<close>

text \<open>
  \<open>lookup_eq self\<close> is the \<^verbatim>\<open>__eq__\<close> that the class of \<open>self\<close> resolves to, applied to
  \<open>self\<close>. For the classes derived from \<^verbatim>\<open>int\<close> it is \<^verbatim>\<open>int.__eq__\<close>, since \<^verbatim>\<open>int\<close> comes
  before \<^verbatim>\<open>Address\<close> in their bases. No class of the module defines \<^verbatim>\<open>__gt__\<close>: the
  classes derived from \<^verbatim>\<open>int\<close> inherit \<^verbatim>\<open>int.__gt__\<close>, the others the default of
  \<^verbatim>\<open>object\<close>, which returns \<^verbatim>\<open>NotImplemented\<close>.
\<close>

definition returned :: "error + bool \<Rightarrow> error + cmp" where
  "returned r = (case r of Inl e \<Rightarrow> Inl e | Inr b \<Rightarrow> Inr (Result b))"

fun lookup_eq :: "pyobj \<Rightarrow> pyobj \<Rightarrow> error + cmp" where
  "lookup_eq (PyInt v) other = Inr (int_eq v other)"
| "lookup_eq (Addr (AbsoluteVirtualAddress v)) other = Inr (int_eq v other)"
| "lookup_eq (Addr (ProcessAddress p)) other = returned (ProcessAddress_eq p other)"
| "lookup_eq (Addr (ThreadAddress t)) other = returned (ThreadAddress_eq t other)"
| "lookup_eq (Addr (DynamicAddress d)) other = returned (DynamicAddress_eq d other)"
| "lookup_eq (Addr (RelativeVirtualAddress v)) other = Inr (int_eq v other)"
| "lookup_eq (Addr (FileOffsetAddress v)) other = Inr (int_eq v other)"
| "lookup_eq (Addr (DNTokenAddress v)) other = Inr (int_eq v other)"
| "lookup_eq (Addr (DNTokenOffsetAddress d)) other =
     returned (DNTokenOffsetAddress_eq d other)"
| "lookup_eq (Addr NO_ADDRESS) other = returned (NoAddress_eq other)"

fun lookup_lt :: "pyobj \<Rightarrow> pyobj \<Rightarrow> error + cmp" where
  "lookup_lt (PyInt v) other = Inr (int_lt v other)"
| "lookup_lt (Addr (AbsoluteVirtualAddress v)) other = Inr (int_lt v other)"
| "lookup_lt (Addr (ProcessAddress p)) other = returned (ProcessAddress_lt p other)"
| "lookup_lt (Addr (ThreadAddress t)) other = returned (ThreadAddress_lt t other)"
| "lookup_lt (Addr (DynamicAddress d)) other = returned (DynamicAddress_lt d other)"
| "lookup_lt (Addr (RelativeVirtualAddress v)) other = Inr (int_lt v other)"
| "lookup_lt (Addr (FileOffsetAddress v)) other = Inr (int_lt v other)"
| "lookup_lt (Addr (DNTokenAddress v)) other = Inr (int_lt v other)"
| "lookup_lt (Addr (DNTokenOffsetAddress d)) other =
     returned (DNTokenOffsetAddress_lt d other)"
| "lookup_lt (Addr NO_ADDRESS) other = returned (NoAddress_lt other)"

definition lookup_gt :: "pyobj \<Rightarrow> pyobj \<Rightarrow> error + cmp" where
  "lookup_gt self other =
     (case int_value self of
        Some v \<Rightarrow> Inr (int_gt v other)
      | None \<Rightarrow> Inr NotImplemented)"

text \<open>
  The interpreter evaluates \<^verbatim>\<open>v == w\<close> and \<^verbatim>\<open>v < w\<close> in three steps: when the class of
  \<open>w\<close> is a proper subclass of the class of \<open>v\<close>, the reflected method of \<open>w\<close> runs first;
  then the method of \<open>v\<close>; then, if it has not run yet, the reflected method of \<open>w\<close>. The
  first result that is not \<^verbatim>\<open>NotImplemented\<close> is the answer, and an exception ends the
  evaluation. The reflection of \<^verbatim>\<open>__eq__\<close> is \<^verbatim>\<open>__eq__\<close> and that of \<^verbatim>\<open>__lt__\<close> is
  \<^verbatim>\<open>__gt__\<close>. When every method returned \<^verbatim>\<open>NotImplemented\<close>, \<^verbatim>\<open>==\<close> compares the
  identities of the operands and \<^verbatim>\<open><\<close> raises \<open>TypeError\<close>.

  Among these classes the only proper subclass relation is between \<^verbatim>\<open>int\<close> and the four
  classes derived from it.
\<close>

definition proper_subclass :: "pyobj \<Rightarrow> pyobj \<Rightarrow> bool" where
  "proper_subclass w v =
     (case v of
        PyInt _ \<Rightarrow> (case w of PyInt _ \<Rightarrow> False | Addr a \<Rightarrow> int_backed a)
      | Addr _ \<Rightarrow> False)"

definition first_result :: "(error + cmp) list \<Rightarrow> (error + bool) \<Rightarrow> error + bool" where
  "first_result attempts fallback =
     foldr (\<lambda>r rest. case r of
                       Inl e \<Rightarrow> Inl e
                     | Inr (Result b) \<Rightarrow> Inr b
                     | Inr NotImplemented \<Rightarrow> rest) attempts fallback"

text \<open>
  The identity test at the end of \<^verbatim>\<open>==\<close> is modelled by equality of the values. It is
  never reached on these classes (lemma \<open>identity_test_unreachable\<close> below): of any two
  operands, one has a method that answers.
\<close>

definition py_eq :: "pyobj \<Rightarrow> pyobj \<Rightarrow> error + bool" where
  "py_eq v w =
     (if proper_subclass w v
      then first_result [lookup_eq w v, lookup_eq v w] (Inr (v = w))
      else first_result [lookup_eq v w, lookup_eq w v] (Inr (v = w)))"

definition py_lt :: "pyobj \<Rightarrow> pyobj \<Rightarrow> error + bool" where
  "py_lt v w =
     (if proper_subclass w v
      then first_result [lookup_gt w v, lookup_lt v w] (Inl TypeError)
      else first_result [lookup_lt v w, lookup_gt w v] (Inl TypeError))"

section \<open>Hashing\<close>

text \<open>
  Every \<^verbatim>\<open>__hash__\<close> of the module calls the interpreter: \<^verbatim>\<open>int.__hash__\<close> on the
  integer value, or the built-in \<^verbatim>\<open>hash\<close> on a tuple of fields, which combines the hashes
  of the items in their order. The two built-ins are parameters of the model. A result of
  either is a valid hash value, which the built-in \<^verbatim>\<open>hash\<close> hands on unchanged when a
  \<^verbatim>\<open>__hash__\<close> of the module returns it.
\<close>

record builtins =
  hash_int :: "int \<Rightarrow> int"
  hash_tuple :: "int list \<Rightarrow> int"

definition ProcessAddress_hash :: "builtins \<Rightarrow> ProcessAddress_fields \<Rightarrow> int" where
  "ProcessAddress_hash B self = hash_tuple B [hash_int B (ppid self), hash_int B (pid self)]"

definition ThreadAddress_hash :: "builtins \<Rightarrow> ThreadAddress_fields \<Rightarrow> int" where
  "ThreadAddress_hash B self =
     hash_tuple B [ProcessAddress_hash B (process self), hash_int B (tid self)]"

definition DynamicAddress_hash :: "builtins \<Rightarrow> DynamicAddress_fields \<Rightarrow> int" where
  "DynamicAddress_hash B self =
     hash_tuple B [hash_int B (id_field self), hash_int B (return_address self)]"

definition DNTokenOffsetAddress_hash :: "builtins \<Rightarrow> DNTokenOffsetAddress_fields \<Rightarrow> int" where
  "DNTokenOffsetAddress_hash B self =
     hash_tuple B [hash_int B (token self), hash_int B (offset self)]"

definition NoAddress_hash :: "builtins \<Rightarrow> int" where
  "NoAddress_hash B = hash_int B 0"

text \<open>
  \<^verbatim>\<open>hash(x)\<close> raises \<open>TypeError\<close> on an object whose class has no \<^verbatim>\<open>__hash__\<close>. Every
  class of the module defines one, so no equation below raises.
\<close>

fun py_hash :: "builtins \<Rightarrow> pyobj \<Rightarrow> error + int" where
  "py_hash B (PyInt v) = Inr (hash_int B v)"
| "py_hash B (Addr (AbsoluteVirtualAddress v)) = Inr (hash_int B v)"
| "py_hash B (Addr (ProcessAddress p)) = Inr (ProcessAddress_hash B p)"
| "py_hash B (Addr (ThreadAddress t)) = Inr (ThreadAddress_hash B t)"
| "py_hash B (Addr (DynamicAddress d)) = Inr (DynamicAddress_hash B d)"
| "py_hash B (Addr (RelativeVirtualAddress v)) = Inr (hash_int B v)"
| "py_hash B (Addr (FileOffsetAddress v)) = Inr (hash_int B v)"
| "py_hash B (Addr (DNTokenAddress v)) = Inr (hash_int B v)"
| "py_hash B (Addr (DNTokenOffsetAddress d)) = Inr (DNTokenOffsetAddress_hash B d)"
| "py_hash B (Addr NO_ADDRESS) = Inr (NoAddress_hash B)"

text \<open>
  One instance of the parameters, for evaluating the model on concrete addresses: the
  hashes of the reference interpreter on a 64-bit platform. An integer hashes to its
  value modulo \<open>2^61 - 1\<close> with the sign kept, and \<open>-1\<close> is replaced by \<open>-2\<close>; a tuple
  is hashed by rounds of multiplication and rotation on 64-bit words.
\<close>

definition cpython_hash_int :: "int \<Rightarrow> int" where
  "cpython_hash_int n =
     (let m = (if n < 0 then - ((- n) mod (2 ^ 61 - 1)) else n mod (2 ^ 61 - 1))
      in if m = - 1 then - 2 else m)"

definition xx_round :: "64 word \<Rightarrow> 64 word \<Rightarrow> 64 word" where
  "xx_round acc lane =
     word_rotl 31 (acc + lane * 14029467366897019727) * 11400714785074694791"

definition cpython_hash_tuple :: "int list \<Rightarrow> int" where
  "cpython_hash_tuple hs =
     (let acc = foldl xx_round 2870177450012600261 (map word_of_int hs);
          r = acc + xor (word_of_nat (length hs)) (xor 2870177450012600261 3527539)
      in if r = - 1 then 1546275796 else sint r)"

definition cpython :: builtins where
  "cpython = \<lparr>hash_int = cpython_hash_int, hash_tuple = cpython_hash_tuple\<rparr>"

section \<open>Rendering and the derived index\<close>

text \<open>
  The format \<^verbatim>\<open>{v:x}\<close> of an integer is its lowercase hexadecimal numeral without
  leading zeros, after a minus sign when it is negative; \<^verbatim>\<open>{v}\<close> is the decimal numeral.
  The decimal digits are the first ten hexadecimal digits.

  The interpreter limits the conversion of an integer to a decimal string: with its
  default setting the conversion raises \<open>ValueError\<close> when the numeral, without its sign,
  has more than 4300 digits. The conversion to hexadecimal has no limit. So \<^verbatim>\<open>{v}\<close> is
  \<open>str_int\<close>, which may raise, and \<^verbatim>\<open>{v:x}\<close> is \<open>format_x\<close>, which does not.
\<close>

definition hex_digit :: "nat \<Rightarrow> char" where
  "hex_digit d = ''0123456789abcdef'' ! d"

fun hex_nat :: "nat \<Rightarrow> string" where
  "hex_nat n = (if n < 16 then [hex_digit n] else hex_nat (n div 16) @ [hex_digit (n mod 16)])"

definition format_x :: "int \<Rightarrow> string" where
  "format_x v = (if v < 0 then CHR ''-'' # hex_nat (nat (- v)) else hex_nat (nat v))"

fun dec_nat :: "nat \<Rightarrow> string" where
  "dec_nat n = (if n < 10 then [hex_digit n] else dec_nat (n div 10) @ [hex_digit (n mod 10)])"

definition decimal :: "int \<Rightarrow> string" where
  "decimal v = (if v < 0 then CHR ''-'' # dec_nat (nat (- v)) else dec_nat (nat v))"

definition int_max_str_digits :: nat where
  "int_max_str_digits = 4300"

definition str_int :: "int \<Rightarrow> error + string" where
  "str_int v =
     (if int_max_str_digits < length (dec_nat (nat \<bar>v\<bar>)) then Inl ValueError
      else Inr (decimal v))"

definition AbsoluteVirtualAddress_repr :: "int \<Rightarrow> string" where
  "AbsoluteVirtualAddress_repr self = ''absolute(0x'' @ format_x self @ '')''"

text \<open>
  The two arguments of \<^verbatim>\<open>%\<close> in \<^verbatim>\<open>ProcessAddress.__repr__\<close> are evaluated from left to
  right: the segment for ppid, which is empty unless ppid is positive, then the segment
  for pid.
\<close>

definition ProcessAddress_repr :: "ProcessAddress_fields \<Rightarrow> error + string" where
  "ProcessAddress_repr self =
     (case (if ppid self > 0
            then (case str_int (ppid self) of
                    Inl e \<Rightarrow> Inl e
                  | Inr s \<Rightarrow> Inr (''ppid: '' @ s @ '', ''))
            else Inr [])
      of
        Inl e \<Rightarrow> Inl e
      | Inr ppid_segment \<Rightarrow>
          (case str_int (pid self) of
             Inl e \<Rightarrow> Inl e
           | Inr s \<Rightarrow> Inr (''process('' @ ppid_segment @ (''pid: '' @ s) @ '')'')))"

definition ThreadAddress_repr :: "ThreadAddress_fields \<Rightarrow> error + string" where
  "ThreadAddress_repr self =
     (case str_int (tid self) of
        Inl e \<Rightarrow> Inl e
      | Inr s \<Rightarrow> Inr (''thread(tid: '' @ s @ '')''))"

definition DynamicAddress_repr :: "DynamicAddress_fields \<Rightarrow> error + string" where
  "DynamicAddress_repr self =
     (case str_int (id_field self) of
        Inl e \<Rightarrow> Inl e
      | Inr s \<Rightarrow>
          Inr (''dynamic(event: '' @ s @ '', returnaddress: 0x''
                 @ format_x (return_address self) @ '')''))"

definition RelativeVirtualAddress_repr :: "int \<Rightarrow> string" where
  "RelativeVirtualAddress_repr self = ''relative(0x'' @ format_x self @ '')''"

definition FileOffsetAddress_repr :: "int \<Rightarrow> string" where
  "FileOffsetAddress_repr self = ''file(0x'' @ format_x self @ '')''"

definition DNTokenAddress_repr :: "int \<Rightarrow> string" where
  "DNTokenAddress_repr self = ''token(0x'' @ format_x self @ '')''"

definition DNTokenOffsetAddress_repr :: "DNTokenOffsetAddress_fields \<Rightarrow> string" where
  "DNTokenOffsetAddress_repr self =
     ''token(0x'' @ format_x (token self) @ '')+(0x'' @ format_x (offset self) @ '')''"

definition NoAddress_repr :: string where
  "NoAddress_repr = ''no address''"

definition DNTokenOffsetAddress_index :: "DNTokenOffsetAddress_fields \<Rightarrow> int" where
  "DNTokenOffsetAddress_index self = token self + offset self"

text \<open>
  \<^verbatim>\<open>repr(x)\<close> raises what \<^verbatim>\<open>__repr__\<close> raises: the \<open>ValueError\<close> of a decimal
  conversion, in the three classes that render a field in decimal.
\<close>

fun py_repr :: "pyobj \<Rightarrow> error + string" where
  "py_repr (PyInt v) = str_int v"
| "py_repr (Addr (AbsoluteVirtualAddress v)) = Inr (AbsoluteVirtualAddress_repr v)"
| "py_repr (Addr (ProcessAddress p)) = ProcessAddress_repr p"
| "py_repr (Addr (ThreadAddress t)) = ThreadAddress_repr t"
| "py_repr (Addr (DynamicAddress d)) = DynamicAddress_repr d"
| "py_repr (Addr (RelativeVirtualAddress v)) = Inr (RelativeVirtualAddress_repr v)"
| "py_repr (Addr (FileOffsetAddress v)) = Inr (FileOffsetAddress_repr v)"
| "py_repr (Addr (DNTokenAddress v)) = Inr (DNTokenAddress_repr v)"
| "py_repr (Addr (DNTokenOffsetAddress d)) = Inr (DNTokenOffsetAddress_repr d)"
| "py_repr (Addr NO_ADDRESS) = Inr NoAddress_repr"

text \<open>The fields that \<^verbatim>\<open>__repr__\<close> renders in decimal, in the order of their conversion.\<close>

fun decimal_fields :: "address \<Rightarrow> int list" where
  "decimal_fields (ProcessAddress p) = (if ppid p > 0 then [ppid p] else []) @ [pid p]"
| "decimal_fields (ThreadAddress t) = [tid t]"
| "decimal_fields (DynamicAddress d) = [id_field d]"
| "decimal_fields _ = []"

section \<open>The field tuples and their lexicographic order\<close>

text \<open>
  The fields of an address in the order in which its class compares them; the process of
  a \<^verbatim>\<open>ThreadAddress\<close> contributes its own tuple. \<open>lex_less\<close> is the lexicographic
  order on such tuples. Both are the reference against which the methods are checked.
\<close>

fun field_tuple :: "address \<Rightarrow> int list" where
  "field_tuple (AbsoluteVirtualAddress v) = [v]"
| "field_tuple (ProcessAddress p) = [ppid p, pid p]"
| "field_tuple (ThreadAddress t) = [ppid (process t), pid (process t), tid t]"
| "field_tuple (DynamicAddress d) = [id_field d, return_address d]"
| "field_tuple (RelativeVirtualAddress v) = [v]"
| "field_tuple (FileOffsetAddress v) = [v]"
| "field_tuple (DNTokenAddress v) = [v]"
| "field_tuple (DNTokenOffsetAddress d) = [token d, offset d]"
| "field_tuple NO_ADDRESS = []"

fun lex_less :: "int list \<Rightarrow> int list \<Rightarrow> bool" where
  "lex_less [] [] = False"
| "lex_less [] (y # ys) = True"
| "lex_less (x # xs) [] = False"
| "lex_less (x # xs) (y # ys) = (x < y \<or> (x = y \<and> lex_less xs ys))"

section \<open>Hexadecimal numerals\<close>

text \<open>
  \<open>hex_value\<close> reads a hexadecimal numeral back. It is the reference for \<open>hex_nat\<close>:
  the digits that \<open>hex_nat\<close> writes are lowercase and denote the number written.
\<close>

definition digit_value :: "char \<Rightarrow> nat" where
  "digit_value c = length (takeWhile (\<lambda>d. d \<noteq> c) ''0123456789abcdef'')"

definition hex_value :: "string \<Rightarrow> nat" where
  "hex_value s = foldl (\<lambda>acc c. 16 * acc + digit_value c) 0 s"

text \<open>The value that a rendering by \<open>format_x\<close> denotes, with its sign.\<close>

definition parse_x :: "string \<Rightarrow> int" where
  "parse_x s =
     (case s of
        [] \<Rightarrow> 0
      | c # cs \<Rightarrow> if c = CHR ''-'' then - int (hex_value cs) else int (hex_value s))"

declare hex_nat.simps [simp del] dec_nat.simps [simp del]

section \<open>The result document\<close>

text \<open>
  \<^verbatim>\<open>capa/render/json.py\<close> has one function:
  \<^verbatim>\<open>render(meta, rules, capabilities)\<close> returns
  \<^verbatim>\<open>rd.ResultDocument.from_capa(meta, rules, capabilities).model_dump_json(exclude_none=True)\<close>.
  The module \<^verbatim>\<open>capa.render.result_document\<close> that builds and serializes the document is
  not among the sources, so the two functions that \<^verbatim>\<open>render\<close> calls are modelled from
  the specification. A document is a JSON value; the metadata, the rule set and the
  payload of a finding are JSON values that the caller supplies, and the match results are
  a list of findings, each keyed by an address.
\<close>

datatype json =
    JNull
  | JInt int
  | JString string
  | JArray "json list"
  | JObject "(string \<times> json) list"

type_synonym RuleSet = json
type_synonym MatchResults = "(address \<times> json) list"

text \<open>
  Modelled from the spec: the serialized form of an address, which is missing with
  \<^verbatim>\<open>result_document\<close>. The specification requires of it "a lossless, type-tagged
  serialized form (variant name + field values)". The variant names are those of its data
  model; the sentinel has no fields, so its value is absent.
\<close>

fun variant_name :: "address \<Rightarrow> string" where
  "variant_name (AbsoluteVirtualAddress _) = ''AbsoluteVirtualAddress''"
| "variant_name (ProcessAddress _) = ''ProcessAddress''"
| "variant_name (ThreadAddress _) = ''ThreadAddress''"
| "variant_name (DynamicAddress _) = ''DynamicAddress''"
| "variant_name (RelativeVirtualAddress _) = ''RelativeVirtualAddress''"
| "variant_name (FileOffsetAddress _) = ''FileOffsetAddress''"
| "variant_name (DNTokenAddress _) = ''DNTokenAddress''"
| "variant_name (DNTokenOffsetAddress _) = ''DNTokenOffsetAddress''"
| "variant_name NO_ADDRESS = ''NoAddress''"

definition address_to_json :: "address \<Rightarrow> json" where
  "address_to_json a =
     JObject [(''type'', JString (variant_name a)),
              (''value'', (case field_tuple a of
                             [] \<Rightarrow> JNull
                           | [v] \<Rightarrow> JInt v
                           | vs \<Rightarrow> JArray (map JInt vs)))]"

text \<open>
  Modelled from the spec: \<^verbatim>\<open>ResultDocument.from_capa\<close>, which is missing. The
  specification says that it "builds a result document from (metadata, rule set, match
  results) where match results are keyed/tagged by Address" and that it "must not fail
  for any well-formed match-result set": the model has no failing branch.
\<close>

definition match_to_json :: "address \<times> json \<Rightarrow> json" where
  "match_to_json m = JObject [(''address'', address_to_json (fst m)), (''result'', snd m)]"

definition from_capa :: "json \<Rightarrow> RuleSet \<Rightarrow> MatchResults \<Rightarrow> error + json" where
  "from_capa meta rules capabilities =
     Inr (JObject [(''meta'', meta), (''rules'', rules),
                   (''matches'', JArray (map match_to_json capabilities))])"

text \<open>
  Modelled from the spec: \<^verbatim>\<open>model_dump_json(exclude_none=True)\<close>, which is missing. The
  specification says that the operation "must omit fields that are absent/null in the
  emitted structured document": a field of an object whose value is null is left out, at
  every depth.
\<close>

primrec model_dump_json :: "json \<Rightarrow> json" where
  "model_dump_json JNull = JNull"
| "model_dump_json (JInt v) = JInt v"
| "model_dump_json (JString s) = JString s"
| "model_dump_json (JArray xs) = JArray (map model_dump_json xs)"
| "model_dump_json (JObject fs) =
     JObject (filter (\<lambda>kv. snd kv \<noteq> JNull) (map (map_prod id model_dump_json) fs))"

text \<open>The function of the source.\<close>

definition render :: "json \<Rightarrow> RuleSet \<Rightarrow> MatchResults \<Rightarrow> error + json" where
  "render meta rules capabilities =
     (case from_capa meta rules capabilities of
        Inl e \<Rightarrow> Inl e
      | Inr doc \<Rightarrow> Inr (model_dump_json doc))"

text \<open>
  What a consumer of the document does: it checks that no field is null, finds the
  serialized addresses of the findings, and reconstructs an address from its variant name
  and field values.
\<close>

primrec no_null_fields :: "json \<Rightarrow> bool" where
  "no_null_fields JNull = True"
| "no_null_fields (JInt v) = True"
| "no_null_fields (JString s) = True"
| "no_null_fields (JArray xs) = list_all id (map no_null_fields xs)"
| "no_null_fields (JObject fs) =
     list_all (\<lambda>kv. fst (snd kv) \<noteq> JNull \<and> snd (snd kv))
       (map (map_prod id (\<lambda>v. (v, no_null_fields v))) fs)"

definition field_of :: "string \<Rightarrow> json \<Rightarrow> json option" where
  "field_of k j = (case j of JObject fs \<Rightarrow> map_of fs k | _ \<Rightarrow> None)"

definition document_addresses :: "json \<Rightarrow> json option list" where
  "document_addresses doc =
     (case field_of ''matches'' doc of
        Some (JArray ms) \<Rightarrow> map (field_of ''address'') ms
      | _ \<Rightarrow> [])"

fun ints_of :: "json option \<Rightarrow> int list option" where
  "ints_of None = Some []"
| "ints_of (Some (JInt v)) = Some [v]"
| "ints_of (Some (JArray [JInt v, JInt w])) = Some [v, w]"
| "ints_of (Some (JArray [JInt u, JInt v, JInt w])) = Some [u, v, w]"
| "ints_of _ = None"

fun address_of_fields :: "string \<Rightarrow> int list \<Rightarrow> address option" where
  "address_of_fields name [] = (if name = ''NoAddress'' then Some NO_ADDRESS else None)"
| "address_of_fields name [v] =
     (if name = ''AbsoluteVirtualAddress'' then Some (AbsoluteVirtualAddress v)
      else if name = ''RelativeVirtualAddress'' then Some (RelativeVirtualAddress v)
      else if name = ''FileOffsetAddress'' then Some (FileOffsetAddress v)
      else if name = ''DNTokenAddress'' then Some (DNTokenAddress v)
      else None)"
| "address_of_fields name [v, w] =
     (if name = ''ProcessAddress'' then Some (ProcessAddress \<lparr>ppid = v, pid = w\<rparr>)
      else if name = ''DynamicAddress''
        then Some (DynamicAddress \<lparr>id_field = v, return_address = w\<rparr>)
      else if name = ''DNTokenOffsetAddress''
        then Some (DNTokenOffsetAddress \<lparr>token = v, offset = w\<rparr>)
      else None)"
| "address_of_fields name [u, v, w] =
     (if name = ''ThreadAddress''
      then Some (ThreadAddress \<lparr>process = \<lparr>ppid = u, pid = v\<rparr>, tid = w\<rparr>)
      else None)"
| "address_of_fields name _ = None"

definition address_of_json :: "json option \<Rightarrow> address option" where
  "address_of_json j =
     (case j of
        None \<Rightarrow> None
      | Some obj \<Rightarrow>
          (case field_of ''type'' obj of
             Some (JString name) \<Rightarrow>
               (case ints_of (field_of ''value'' obj) of
                  None \<Rightarrow> None
                | Some vs \<Rightarrow> address_of_fields name vs)
           | _ \<Rightarrow> None))"

section \<open>Basic facts about the methods\<close>

lemmas method_defs =
  int_eq_def int_lt_def int_gt_def ProcessAddress_eq_def ProcessAddress_lt_def
  ThreadAddress_eq_def ThreadAddress_lt_def DynamicAddress_eq_def DynamicAddress_lt_def
  DNTokenOffsetAddress_eq_def DNTokenOffsetAddress_lt_def NoAddress_eq_def NoAddress_lt_def
  eq_process_items_def lt_process_items_def

lemmas base_method_defs =
  int_eq_def int_lt_def int_gt_def NoAddress_eq_def NoAddress_lt_def

lemmas operator_defs =
  py_eq_def py_lt_def proper_subclass_def first_result_def lookup_gt_def returned_def
  int_backed_def

lemma tuple2_eq_int [simp]:
  "tuple2_eq eq_int_items eq_int_items (a, b) (c, d) = Inr (a = c \<and> b = d)"
  by (simp add: tuple2_eq_def eq_int_items_def)

lemma tuple2_lt_int [simp]:
  "tuple2_lt eq_int_items lt_int_items eq_int_items lt_int_items (a, b) (c, d) =
     Inr (a < c \<or> (a = c \<and> b < d))"
  by (auto simp add: tuple2_lt_def eq_int_items_def lt_int_items_def)

lemma ProcessAddress_eq_same [simp]:
  "ProcessAddress_eq p (Addr (ProcessAddress q)) = Inr (ppid p = ppid q \<and> pid p = pid q)"
  by (simp add: ProcessAddress_eq_def)

lemma ProcessAddress_lt_same [simp]:
  "ProcessAddress_lt p (Addr (ProcessAddress q)) =
     Inr (ppid p < ppid q \<or> (ppid p = ppid q \<and> pid p < pid q))"
  by (simp add: ProcessAddress_lt_def)

lemma ThreadAddress_eq_same [simp]:
  "ThreadAddress_eq s (Addr (ThreadAddress t)) =
     Inr ((ppid (process s) = ppid (process t) \<and> pid (process s) = pid (process t))
          \<and> tid s = tid t)"
  by (auto simp add: ThreadAddress_eq_def tuple2_eq_def eq_process_items_def eq_int_items_def)

lemma ThreadAddress_lt_same [simp]:
  "ThreadAddress_lt s (Addr (ThreadAddress t)) =
     Inr (lex_less [ppid (process s), pid (process s), tid s]
                   [ppid (process t), pid (process t), tid t])"
  by (simp add: ThreadAddress_lt_def tuple2_lt_def eq_process_items_def
      lt_process_items_def eq_int_items_def lt_int_items_def) auto

lemma DynamicAddress_eq_same [simp]:
  "DynamicAddress_eq d (Addr (DynamicAddress e)) =
     Inr (id_field d = id_field e \<and> return_address d = return_address e)"
  by (simp add: DynamicAddress_eq_def)

lemma DynamicAddress_lt_same [simp]:
  "DynamicAddress_lt d (Addr (DynamicAddress e)) =
     Inr (id_field d < id_field e \<or> (id_field d = id_field e \<and> return_address d < return_address e))"
  by (simp add: DynamicAddress_lt_def)

lemma DNTokenOffsetAddress_eq_same [simp]:
  "DNTokenOffsetAddress_eq d (Addr (DNTokenOffsetAddress e)) =
     Inr (token d = token e \<and> offset d = offset e)"
  by (simp add: DNTokenOffsetAddress_eq_def)

lemma DNTokenOffsetAddress_lt_same [simp]:
  "DNTokenOffsetAddress_lt d (Addr (DNTokenOffsetAddress e)) =
     Inr (token d < token e \<or> (token d = token e \<and> offset d < offset e))"
  by (simp add: DNTokenOffsetAddress_lt_def)

text \<open>
  The identity test that ends \<^verbatim>\<open>==\<close> is dead code for these classes: when the method of
  one operand returns \<^verbatim>\<open>NotImplemented\<close>, the method of the other does not.
\<close>

lemma lookup_eq_NotImplemented:
  assumes "lookup_eq v w = Inr NotImplemented"
  shows "int_value v \<noteq> None \<and> int_value w = None"
proof (cases v)
  case (PyInt n)
  with assms show ?thesis by (auto simp add: int_eq_def split: option.splits)
next
  case (Addr a)
  with assms show ?thesis
    by (cases a) (auto simp add: int_eq_def returned_def split: option.splits sum.splits)
qed

lemma identity_test_unreachable:
  "lookup_eq v w = Inr NotImplemented \<Longrightarrow> lookup_eq w v \<noteq> Inr NotImplemented"
  using lookup_eq_NotImplemented by blast

text \<open>Same-variant comparisons against the reference order on field tuples.\<close>

lemma py_eq_same_variant:
  "variant_of a = variant_of b \<Longrightarrow>
     py_eq (Addr a) (Addr b) = Inr (field_tuple a = field_tuple b)"
  by (cases a; cases b) (simp_all add: operator_defs base_method_defs)

lemma py_lt_same_variant:
  "variant_of a = variant_of b \<Longrightarrow>
     py_lt (Addr a) (Addr b) = Inr (lex_less (field_tuple a) (field_tuple b))"
  by (cases a; cases b) (simp_all add: operator_defs base_method_defs)

lemma py_eq_int_backed:
  "address_int a = Some m \<Longrightarrow> address_int b = Some n \<Longrightarrow>
     py_eq (Addr a) (Addr b) = Inr (m = n)"
  by (cases a; cases b) (simp_all add: operator_defs base_method_defs)

lemma field_tuple_length:
  "variant_of a = variant_of b \<Longrightarrow> length (field_tuple a) = length (field_tuple b)"
  by (cases a; cases b) simp_all

lemma field_tuple_inject:
  "variant_of a = variant_of b \<Longrightarrow> field_tuple a = field_tuple b \<Longrightarrow> a = b"
  by (cases a; cases b) simp_all

lemma lex_less_irrefl: "\<not> lex_less xs xs"
  by (induction xs) simp_all

lemma lex_less_trans: "lex_less xs ys \<Longrightarrow> lex_less ys zs \<Longrightarrow> lex_less xs zs"
proof (induction xs ys arbitrary: zs rule: lex_less.induct)
  case (4 x xs y ys)
  then show ?case by (cases zs) auto
next
  case (2 y ys)
  then show ?case by (cases zs) auto
qed simp_all

lemma lex_less_asym: "lex_less xs ys \<Longrightarrow> \<not> lex_less ys xs"
  using lex_less_irrefl lex_less_trans by blast

lemma lex_less_total:
  "length xs = length ys \<Longrightarrow> lex_less xs ys \<or> xs = ys \<or> lex_less ys xs"
  by (induction xs ys rule: lex_less.induct) auto

section \<open>The sentinel on the left\<close>

text \<open>
  Claim C1. With the sentinel as the left operand, \<^verbatim>\<open>NO_ADDRESS == x\<close> returns true and
  \<^verbatim>\<open>NO_ADDRESS < x\<close> returns false for every address \<open>x\<close>, the sentinel included: no
  class of the module derives from the class of the sentinel, so its own methods run first
  and they answer without looking at \<open>x\<close>.
\<close>

theorem NO_ADDRESS_left_operand:
  "py_eq (Addr NO_ADDRESS) (Addr x) = Inr True \<and> py_lt (Addr NO_ADDRESS) (Addr x) = Inr False"
  by (simp add: operator_defs base_method_defs)

section \<open>Equality within a variant\<close>

text \<open>
  Claim C3. Two addresses of the same variant are equal exactly when their field tuples
  are: (ppid, pid) for \<^verbatim>\<open>ProcessAddress\<close>, (process, tid) for \<^verbatim>\<open>ThreadAddress\<close>,
  (id, return address) for \<^verbatim>\<open>DynamicAddress\<close>, (token, offset) for
  \<^verbatim>\<open>DNTokenOffsetAddress\<close>, and the integer value for the variants derived from \<^verbatim>\<open>int\<close>.
  The comparison returns a boolean in each case; it does not raise.
\<close>

theorem same_variant_equality:
  "py_eq (Addr (ProcessAddress p)) (Addr (ProcessAddress q)) = Inr ((ppid p, pid p) = (ppid q, pid q))
   \<and> py_eq (Addr (ThreadAddress s)) (Addr (ThreadAddress t)) = Inr ((process s, tid s) = (process t, tid t))
   \<and> py_eq (Addr (DynamicAddress d)) (Addr (DynamicAddress e))
       = Inr ((id_field d, return_address d) = (id_field e, return_address e))
   \<and> py_eq (Addr (DNTokenOffsetAddress k)) (Addr (DNTokenOffsetAddress l))
       = Inr ((token k, offset k) = (token l, offset l))
   \<and> py_eq (Addr (AbsoluteVirtualAddress m)) (Addr (AbsoluteVirtualAddress n)) = Inr (m = n)
   \<and> py_eq (Addr (RelativeVirtualAddress m)) (Addr (RelativeVirtualAddress n)) = Inr (m = n)
   \<and> py_eq (Addr (FileOffsetAddress m)) (Addr (FileOffsetAddress n)) = Inr (m = n)
   \<and> py_eq (Addr (DNTokenAddress m)) (Addr (DNTokenAddress n)) = Inr (m = n)"
proof -
  have "process s = process t \<longleftrightarrow>
        ppid (process s) = ppid (process t) \<and> pid (process s) = pid (process t)"
    by (cases "process s"; cases "process t") simp
  then show ?thesis
    by (simp add: operator_defs base_method_defs)
qed

section \<open>The sentinel on the right\<close>

text \<open>
  Claim C10. With the sentinel as the right operand the outcome depends on the class of
  the left operand \<open>x\<close>. For the four variants derived from \<^verbatim>\<open>int\<close>, \<^verbatim>\<open>int.__eq__\<close>
  returns \<^verbatim>\<open>NotImplemented\<close>, the sentinel's \<^verbatim>\<open>__eq__\<close> is consulted and
  \<^verbatim>\<open>x == NO_ADDRESS\<close> returns true. For \<^verbatim>\<open>ProcessAddress\<close> and \<^verbatim>\<open>ThreadAddress\<close> the
  assertion on the class of the other operand fails; for \<^verbatim>\<open>DynamicAddress\<close> and
  \<^verbatim>\<open>DNTokenOffsetAddress\<close> the sentinel has none of the attributes that are read. In
  these four cases an error is raised and no boolean is returned.
\<close>

theorem eq_NO_ADDRESS_right_operand:
  "py_eq (Addr (AbsoluteVirtualAddress n)) (Addr NO_ADDRESS) = Inr True
   \<and> py_eq (Addr (RelativeVirtualAddress n)) (Addr NO_ADDRESS) = Inr True
   \<and> py_eq (Addr (FileOffsetAddress n)) (Addr NO_ADDRESS) = Inr True
   \<and> py_eq (Addr (DNTokenAddress n)) (Addr NO_ADDRESS) = Inr True
   \<and> py_eq (Addr (ProcessAddress p)) (Addr NO_ADDRESS) = Inl AssertionError
   \<and> py_eq (Addr (ThreadAddress t)) (Addr NO_ADDRESS) = Inl AssertionError
   \<and> py_eq (Addr (DynamicAddress d)) (Addr NO_ADDRESS) = Inl AttributeError
   \<and> py_eq (Addr (DNTokenOffsetAddress k)) (Addr NO_ADDRESS) = Inl AttributeError"
  by (simp add: operator_defs method_defs)

section \<open>The variants derived from int and plain integers\<close>

lemma int_backed_like_int:
  assumes "address_int a = Some n"
  shows "py_eq (Addr a) (PyInt n) = Inr True
         \<and> py_eq (PyInt n) (Addr a) = Inr True
         \<and> py_hash B (Addr a) = py_hash B (PyInt n)"
  using assms by (cases a) (simp_all add: operator_defs base_method_defs)

lemma constructed_int_backed:
  assumes "new_AbsoluteVirtualAddress n = Inr a \<or> new_RelativeVirtualAddress n = Inr a
           \<or> new_FileOffsetAddress n = Inr a \<or> new_DNTokenAddress n = Inr a"
  shows "address_int a = Some n"
  using assms
  by (auto simp add: new_AbsoluteVirtualAddress_def new_RelativeVirtualAddress_def
      new_FileOffsetAddress_def new_DNTokenAddress_def split: if_splits)

text \<open>
  Claim C8. Let \<open>a\<close> be what one of the four constructors of the variants derived from
  \<^verbatim>\<open>int\<close> returns on the integer \<open>n\<close>. Then \<open>a\<close> compares equal to the plain integer
  \<open>n\<close>, with either of them as the left operand, and it has the hash of \<open>n\<close>; and if
  \<open>b\<close> is what one of these constructors, the same or another, returns on \<open>n\<close>,
  then \<open>a\<close> and \<open>b\<close> compare equal.
\<close>

theorem int_backed_equals_int:
  assumes "new_AbsoluteVirtualAddress n = Inr a \<or> new_RelativeVirtualAddress n = Inr a
           \<or> new_FileOffsetAddress n = Inr a \<or> new_DNTokenAddress n = Inr a"
  shows "py_eq (Addr a) (PyInt n) = Inr True
         \<and> py_eq (PyInt n) (Addr a) = Inr True
         \<and> py_hash B (Addr a) = py_hash B (PyInt n)
         \<and> (new_AbsoluteVirtualAddress n = Inr b \<or> new_RelativeVirtualAddress n = Inr b
               \<or> new_FileOffsetAddress n = Inr b \<or> new_DNTokenAddress n = Inr b
             \<longrightarrow> py_eq (Addr a) (Addr b) = Inr True)"
proof -
  have a: "address_int a = Some n"
    using assms by (rule constructed_int_backed)
  have "py_eq (Addr a) (Addr b) = Inr True"
    if "new_AbsoluteVirtualAddress n = Inr b \<or> new_RelativeVirtualAddress n = Inr b
        \<or> new_FileOffsetAddress n = Inr b \<or> new_DNTokenAddress n = Inr b"
  proof -
    from that have "address_int b = Some n"
      by (rule constructed_int_backed)
    with a show ?thesis
      by (simp add: py_eq_int_backed)
  qed
  with int_backed_like_int [OF a, of B] show ?thesis
    by blast
qed

theorem int_backed_equals_int_witness:
  "new_FileOffsetAddress 512 = Inr (FileOffsetAddress 512)
   \<and> py_eq (Addr (FileOffsetAddress 512)) (PyInt 512) = Inr True
   \<and> py_eq (PyInt 512) (Addr (FileOffsetAddress 512)) = Inr True
   \<and> py_hash cpython (Addr (FileOffsetAddress 512)) = Inr 512
   \<and> py_hash cpython (PyInt 512) = Inr 512
   \<and> new_AbsoluteVirtualAddress 512 = Inr (AbsoluteVirtualAddress 512)
   \<and> py_eq (Addr (FileOffsetAddress 512)) (Addr (AbsoluteVirtualAddress 512)) = Inr True"
  using int_backed_equals_int [of 512 "FileOffsetAddress 512" cpython "AbsoluteVirtualAddress 512"]
  by (simp add: new_FileOffsetAddress_def new_AbsoluteVirtualAddress_def new_RelativeVirtualAddress_def
      new_DNTokenAddress_def cpython_def cpython_hash_int_def)

section \<open>The order within a variant\<close>

text \<open>
  Claim C4. For addresses of one variant, \<^verbatim>\<open><\<close> returns the lexicographic order of the
  field tuples (ppid before pid, process before tid, id before return address, token
  before offset, the value for the variants derived from \<^verbatim>\<open>int\<close>) and \<^verbatim>\<open>==\<close> their
  equality. Hence \<^verbatim>\<open><\<close> is irreflexive and transitive, and exactly one of \<open>a < b\<close>,
  \<open>b < a\<close>, \<open>a == b\<close> holds. In particular the process with pid 5 and ppid 0 is below
  the process with pid 5 and ppid 1, and two threads of different processes are ordered as
  their processes are, whatever their tids.
\<close>

theorem same_variant_strict_total_order:
  assumes "variant_of a = variant_of b" and "variant_of b = variant_of c"
  shows "py_lt (Addr a) (Addr b) = Inr (lex_less (field_tuple a) (field_tuple b))
    \<and> py_eq (Addr a) (Addr b) = Inr (field_tuple a = field_tuple b)
    \<and> py_lt (Addr a) (Addr a) = Inr False
    \<and> (py_lt (Addr a) (Addr b) = Inr True \<and> py_lt (Addr b) (Addr c) = Inr True
         \<longrightarrow> py_lt (Addr a) (Addr c) = Inr True)
    \<and> ((py_lt (Addr a) (Addr b) = Inr True \<and> py_lt (Addr b) (Addr a) = Inr False
           \<and> py_eq (Addr a) (Addr b) = Inr False)
        \<or> (py_lt (Addr a) (Addr b) = Inr False \<and> py_lt (Addr b) (Addr a) = Inr True
           \<and> py_eq (Addr a) (Addr b) = Inr False)
        \<or> (py_lt (Addr a) (Addr b) = Inr False \<and> py_lt (Addr b) (Addr a) = Inr False
           \<and> py_eq (Addr a) (Addr b) = Inr True))
    \<and> py_lt (Addr (ProcessAddress \<lparr>ppid = 0, pid = 5\<rparr>))
             (Addr (ProcessAddress \<lparr>ppid = 1, pid = 5\<rparr>)) = Inr True
    \<and> (process s \<noteq> process t
         \<longrightarrow> py_lt (Addr (ThreadAddress s)) (Addr (ThreadAddress t))
             = py_lt (Addr (ProcessAddress (process s))) (Addr (ProcessAddress (process t))))"
proof -
  have ab: "py_lt (Addr a) (Addr b) = Inr (lex_less (field_tuple a) (field_tuple b))"
    using assms(1) by (rule py_lt_same_variant)
  have ba: "py_lt (Addr b) (Addr a) = Inr (lex_less (field_tuple b) (field_tuple a))"
    using assms(1) by (simp add: py_lt_same_variant)
  have bc: "py_lt (Addr b) (Addr c) = Inr (lex_less (field_tuple b) (field_tuple c))"
    using assms(2) by (rule py_lt_same_variant)
  have ac: "py_lt (Addr a) (Addr c) = Inr (lex_less (field_tuple a) (field_tuple c))"
    using assms by (simp add: py_lt_same_variant)
  have aa: "py_lt (Addr a) (Addr a) = Inr False"
    by (simp add: py_lt_same_variant lex_less_irrefl)
  have eq: "py_eq (Addr a) (Addr b) = Inr (field_tuple a = field_tuple b)"
    using assms(1) by (rule py_eq_same_variant)
  have trans: "py_lt (Addr a) (Addr b) = Inr True \<and> py_lt (Addr b) (Addr c) = Inr True
                 \<longrightarrow> py_lt (Addr a) (Addr c) = Inr True"
    using lex_less_trans by (auto simp add: ab bc ac)
  have len: "length (field_tuple a) = length (field_tuple b)"
    using assms(1) by (rule field_tuple_length)
  have tri: "(lex_less (field_tuple a) (field_tuple b) \<and> \<not> lex_less (field_tuple b) (field_tuple a)
                \<and> field_tuple a \<noteq> field_tuple b)
           \<or> (\<not> lex_less (field_tuple a) (field_tuple b) \<and> lex_less (field_tuple b) (field_tuple a)
                \<and> field_tuple a \<noteq> field_tuple b)
           \<or> (\<not> lex_less (field_tuple a) (field_tuple b) \<and> \<not> lex_less (field_tuple b) (field_tuple a)
                \<and> field_tuple a = field_tuple b)"
    using lex_less_total [OF len] lex_less_asym lex_less_irrefl by metis
  have ex: "py_lt (Addr (ProcessAddress \<lparr>ppid = 0, pid = 5\<rparr>))
                  (Addr (ProcessAddress \<lparr>ppid = 1, pid = 5\<rparr>)) = Inr True"
    by (simp add: py_lt_same_variant)
  have "process s = process t \<longleftrightarrow>
        ppid (process s) = ppid (process t) \<and> pid (process s) = pid (process t)"
    by (cases "process s"; cases "process t") simp
  then have thr: "process s \<noteq> process t
         \<longrightarrow> py_lt (Addr (ThreadAddress s)) (Addr (ThreadAddress t))
             = py_lt (Addr (ProcessAddress (process s))) (Addr (ProcessAddress (process t)))"
    by (auto simp add: py_lt_same_variant)
  from tri have tri': "(py_lt (Addr a) (Addr b) = Inr True \<and> py_lt (Addr b) (Addr a) = Inr False
           \<and> py_eq (Addr a) (Addr b) = Inr False)
        \<or> (py_lt (Addr a) (Addr b) = Inr False \<and> py_lt (Addr b) (Addr a) = Inr True
           \<and> py_eq (Addr a) (Addr b) = Inr False)
        \<or> (py_lt (Addr a) (Addr b) = Inr False \<and> py_lt (Addr b) (Addr a) = Inr False
           \<and> py_eq (Addr a) (Addr b) = Inr True)"
    unfolding ab ba eq by simp
  from ab eq aa trans tri' ex thr show ?thesis by blast
qed

theorem same_variant_strict_total_order_witness:
  "variant_of (ProcessAddress \<lparr>ppid = 0, pid = 5\<rparr>) = variant_of (ProcessAddress \<lparr>ppid = 1, pid = 5\<rparr>)
   \<and> variant_of (ProcessAddress \<lparr>ppid = 1, pid = 5\<rparr>) = variant_of (ProcessAddress \<lparr>ppid = 1, pid = 7\<rparr>)
   \<and> py_lt (Addr (ProcessAddress \<lparr>ppid = 0, pid = 5\<rparr>)) (Addr (ProcessAddress \<lparr>ppid = 1, pid = 5\<rparr>))
       = Inr True
   \<and> py_lt (Addr (ProcessAddress \<lparr>ppid = 1, pid = 5\<rparr>)) (Addr (ProcessAddress \<lparr>ppid = 1, pid = 7\<rparr>))
       = Inr True
   \<and> py_lt (Addr (ProcessAddress \<lparr>ppid = 0, pid = 5\<rparr>)) (Addr (ProcessAddress \<lparr>ppid = 1, pid = 7\<rparr>))
       = Inr True
   \<and> py_lt (Addr (ProcessAddress \<lparr>ppid = 1, pid = 5\<rparr>)) (Addr (ProcessAddress \<lparr>ppid = 0, pid = 5\<rparr>))
       = Inr False
   \<and> py_eq (Addr (ProcessAddress \<lparr>ppid = 0, pid = 5\<rparr>)) (Addr (ProcessAddress \<lparr>ppid = 1, pid = 5\<rparr>))
       = Inr False
   \<and> process \<lparr>process = \<lparr>ppid = 0, pid = 5\<rparr>, tid = 3\<rparr> \<noteq> process \<lparr>process = \<lparr>ppid = 1, pid = 5\<rparr>, tid = 3\<rparr>
   \<and> py_lt (Addr (ThreadAddress \<lparr>process = \<lparr>ppid = 0, pid = 5\<rparr>, tid = 3\<rparr>))
            (Addr (ThreadAddress \<lparr>process = \<lparr>ppid = 1, pid = 5\<rparr>, tid = 3\<rparr>)) = Inr True"
  using same_variant_strict_total_order
    [of "ProcessAddress \<lparr>ppid = 0, pid = 5\<rparr>" "ProcessAddress \<lparr>ppid = 1, pid = 5\<rparr>"
        "ProcessAddress \<lparr>ppid = 1, pid = 7\<rparr>"
        "\<lparr>process = \<lparr>ppid = 0, pid = 5\<rparr>, tid = 3\<rparr>" "\<lparr>process = \<lparr>ppid = 1, pid = 5\<rparr>, tid = 3\<rparr>"]
  by (simp add: py_lt_same_variant py_eq_same_variant)

section \<open>Hashing agrees with equality\<close>

text \<open>
  Claim C5. Two addresses of one variant that compare equal have the same hash. The hash
  of each variant is the built-in hash of the tuple of the fields that its equality
  compares, in the same order (the process of a \<^verbatim>\<open>ThreadAddress\<close> enters with its own
  hash), or \<^verbatim>\<open>int.__hash__\<close> of the value for the variants derived from \<^verbatim>\<open>int\<close>. The
  sentinel hashes to the hash of the integer zero.
\<close>

theorem equal_addresses_hash_alike:
  assumes "variant_of a = variant_of b" and "py_eq (Addr a) (Addr b) = Inr True"
  shows "py_hash B (Addr a) = py_hash B (Addr b)
    \<and> py_hash B (Addr (ProcessAddress p))
        = Inr (hash_tuple B [hash_int B (ppid p), hash_int B (pid p)])
    \<and> py_hash B (Addr (ThreadAddress t))
        = Inr (hash_tuple B
            [hash_tuple B [hash_int B (ppid (process t)), hash_int B (pid (process t))],
             hash_int B (tid t)])
    \<and> py_hash B (Addr (DynamicAddress d))
        = Inr (hash_tuple B [hash_int B (id_field d), hash_int B (return_address d)])
    \<and> py_hash B (Addr (DNTokenOffsetAddress k))
        = Inr (hash_tuple B [hash_int B (token k), hash_int B (offset k)])
    \<and> py_hash B (Addr (AbsoluteVirtualAddress n)) = Inr (hash_int B n)
    \<and> py_hash B (Addr (RelativeVirtualAddress n)) = Inr (hash_int B n)
    \<and> py_hash B (Addr (FileOffsetAddress n)) = Inr (hash_int B n)
    \<and> py_hash B (Addr (DNTokenAddress n)) = Inr (hash_int B n)
    \<and> py_hash B (Addr NO_ADDRESS) = Inr (hash_int B 0)"
proof -
  from assms have "field_tuple a = field_tuple b"
    by (simp add: py_eq_same_variant)
  with assms(1) have "a = b"
    by (rule field_tuple_inject)
  then show ?thesis
    by (simp add: ProcessAddress_hash_def ThreadAddress_hash_def DynamicAddress_hash_def
        DNTokenOffsetAddress_hash_def NoAddress_hash_def)
qed

theorem equal_addresses_hash_alike_witness:
  "variant_of (ProcessAddress \<lparr>ppid = 0, pid = 5\<rparr>)
     = variant_of (ProcessAddress \<lparr>ppid = 0, pid = 5\<rparr>)
   \<and> py_eq (Addr (ProcessAddress \<lparr>ppid = 0, pid = 5\<rparr>))
           (Addr (ProcessAddress \<lparr>ppid = 0, pid = 5\<rparr>)) = Inr True
   \<and> py_hash cpython (Addr (ProcessAddress \<lparr>ppid = 0, pid = 5\<rparr>))
       = Inr (- 3119722376306286570)
   \<and> py_hash cpython (Addr NO_ADDRESS) = Inr 0"
proof -
  have hashed: "py_hash cpython (Addr (ProcessAddress \<lparr>ppid = 0, pid = 5\<rparr>))
                 = Inr (- 3119722376306286570)"
    by code_simp
  show ?thesis
    using equal_addresses_hash_alike
      [of "ProcessAddress \<lparr>ppid = 0, pid = 5\<rparr>" "ProcessAddress \<lparr>ppid = 0, pid = 5\<rparr>" cpython]
      hashed
    by (simp add: py_eq_same_variant cpython_def cpython_hash_int_def)
qed

section \<open>Facts about the numerals\<close>

lemma digit_value_table:
  "map (\<lambda>d. digit_value (hex_digit d)) [0..<16] = [0..<16]"
  by code_simp

lemma digit_value_hex_digit:
  assumes "d < 16"
  shows "digit_value (hex_digit d) = d"
proof -
  have "map (\<lambda>d. digit_value (hex_digit d)) [0..<16] ! d = digit_value (hex_digit ([0..<16] ! d))"
    using assms by (intro nth_map) simp
  moreover have "[0..<16] ! d = d"
    using assms nth_upt [of 0 d 16] by simp
  ultimately show ?thesis
    by (simp only: digit_value_table)
qed

lemma hex_digit_lowercase: "d < 16 \<Longrightarrow> hex_digit d \<in> set ''0123456789abcdef''"
  unfolding hex_digit_def by (rule nth_mem) simp

lemma hex_value_snoc: "hex_value (s @ [c]) = 16 * hex_value s + digit_value c"
  by (simp add: hex_value_def)

lemma hex_value_hex_nat: "hex_value (hex_nat n) = n"
proof (induction n rule: hex_nat.induct)
  case (1 n)
  show ?case
  proof (cases "n < 16")
    case True
    then show ?thesis
      by (simp add: hex_nat.simps [of n] hex_value_def digit_value_hex_digit)
  next
    case False
    with "1" have "hex_value (hex_nat (n div 16)) = n div 16"
      by simp
    with False show ?thesis
      by (simp add: hex_nat.simps [of n] hex_value_snoc digit_value_hex_digit)
  qed
qed

lemma hex_nat_lowercase: "set (hex_nat n) \<subseteq> set ''0123456789abcdef''"
proof (induction n rule: hex_nat.induct)
  case (1 n)
  have digit: "hex_digit (n mod 16) \<in> set ''0123456789abcdef''"
    by (rule hex_digit_lowercase) simp
  show ?case
  proof (cases "n < 16")
    case True
    then show ?thesis
      using hex_digit_lowercase [of n] by (simp add: hex_nat.simps [of n])
  next
    case False
    with "1" have "set (hex_nat (n div 16)) \<subseteq> set ''0123456789abcdef''"
      by simp
    with False digit show ?thesis
      by (simp add: hex_nat.simps [of n])
  qed
qed

text \<open>
  The two branches of the numeral functions as conditional equations, for evaluating them
  on numerals.
\<close>

lemma hex_nat_digit: "n < 16 \<Longrightarrow> hex_nat n = [hex_digit n]"
  by (simp add: hex_nat.simps [of n])

lemma hex_nat_step: "\<not> n < 16 \<Longrightarrow> hex_nat n = hex_nat (n div 16) @ [hex_digit (n mod 16)]"
  by (simp add: hex_nat.simps [of n])

lemma dec_nat_digit: "n < 10 \<Longrightarrow> dec_nat n = [hex_digit n]"
  by (simp add: dec_nat.simps [of n])

lemma dec_nat_step: "\<not> n < 10 \<Longrightarrow> dec_nat n = dec_nat (n div 10) @ [hex_digit (n mod 10)]"
  by (simp add: dec_nat.simps [of n])

lemmas numeral_defs =
  hex_nat_digit hex_nat_step dec_nat_digit dec_nat_step hex_digit_def format_x_def decimal_def

text \<open>
  The limit on decimal conversion, as a bound on the integer: the numeral of \<open>n\<close> has
  more than \<open>k\<close> digits exactly when \<open>n\<close> is at least \<open>10 ^ k\<close>.
\<close>

lemma dec_nat_not_empty: "dec_nat n \<noteq> []"
  by (simp add: dec_nat.simps [of n])

lemma dec_nat_length: "0 < k \<Longrightarrow> (k < length (dec_nat n)) = (10 ^ k \<le> n)"
proof (induction n arbitrary: k rule: dec_nat.induct)
  case (1 n)
  show ?case
  proof (cases "n < 10")
    case True
    have "(10::nat) ^ 1 \<le> 10 ^ k"
      using "1.prems" by (intro power_increasing) simp_all
    with True have "n < 10 ^ k"
      by simp
    with True "1.prems" show ?thesis
      by (simp add: dec_nat_digit)
  next
    case False
    then have step: "length (dec_nat n) = Suc (length (dec_nat (n div 10)))"
      by (simp add: dec_nat_step)
    show ?thesis
    proof (cases k)
      case 0
      with "1.prems" show ?thesis by simp
    next
      case (Suc j)
      show ?thesis
      proof (cases "j = 0")
        case True
        with Suc False step show ?thesis
          using dec_nat_not_empty [of "n div 10"] by simp
      next
        case nonzero: False
        with False have "(j < length (dec_nat (n div 10))) = (10 ^ j \<le> n div 10)"
          by (intro "1.IH") simp_all
        also have "(10 ^ j \<le> n div 10) = (10 ^ j * 10 \<le> n)"
          by (simp add: less_eq_div_iff_mult_less_eq)
        finally show ?thesis
          using Suc step by (simp add: mult.commute)
      qed
    qed
  qed
qed

lemma int_max_str_digits_positive: "0 < int_max_str_digits"
  by (simp add: int_max_str_digits_def)

lemma str_int_limit:
  "str_int v = (if 10 ^ int_max_str_digits \<le> \<bar>v\<bar> then Inl ValueError else Inr (decimal v))"
proof -
  have "(int_max_str_digits < length (dec_nat (nat \<bar>v\<bar>))) = (10 ^ int_max_str_digits \<le> nat \<bar>v\<bar>)"
    using int_max_str_digits_positive by (rule dec_nat_length)
  also have "\<dots> = (10 ^ int_max_str_digits \<le> \<bar>v\<bar>)"
    by (simp add: le_nat_iff)
  finally show ?thesis
    by (simp add: str_int_def)
qed

lemma below_limit:
  fixes v :: int
  assumes "\<bar>v\<bar> < 10"
  shows "\<not> 10 ^ int_max_str_digits \<le> \<bar>v\<bar>"
proof -
  have "(10::int) ^ 1 \<le> 10 ^ int_max_str_digits"
    using int_max_str_digits_positive by (intro power_increasing) simp_all
  with assms show ?thesis
    by simp
qed

lemma str_int_below_ten: "\<bar>v\<bar> < 10 \<Longrightarrow> str_int v = Inr (decimal v)"
  by (simp add: str_int_limit below_limit)

lemma hex_nat_not_empty: "hex_nat n \<noteq> []"
  by (simp add: hex_nat.simps [of n])

lemma hex_nat_no_sign: "CHR ''-'' \<notin> set (hex_nat n)"
proof -
  have "CHR ''-'' \<notin> set ''0123456789abcdef''"
    by simp
  then show ?thesis
    using hex_nat_lowercase [of n] by blast
qed

lemma parse_x_format_x: "parse_x (format_x v) = v"
proof (cases "v < 0")
  case True
  then show ?thesis
    by (simp add: parse_x_def format_x_def hex_value_hex_nat)
next
  case False
  obtain c cs where split: "hex_nat (nat v) = c # cs"
    using hex_nat_not_empty [of "nat v"] by (cases "hex_nat (nat v)") auto
  then have "c \<noteq> CHR ''-''"
    using hex_nat_no_sign [of "nat v"] by auto
  moreover have "hex_value (c # cs) = nat v"
    using hex_value_hex_nat [of "nat v"] split by simp
  ultimately show ?thesis
    using False split by (simp add: parse_x_def format_x_def)
qed

lemma set_Cons_subset: "x \<in> A \<Longrightarrow> set xs \<subseteq> A \<Longrightarrow> set (x # xs) \<subseteq> A"
  by simp

lemma format_x_lowercase: "set (format_x v) \<subseteq> set ''-0123456789abcdef''"
proof -
  have digits: "set (hex_nat n) \<subseteq> set ''-0123456789abcdef''" for n
    by (rule subset_trans [OF hex_nat_lowercase set_subset_Cons])
  have sign: "CHR ''-'' \<in> set ''-0123456789abcdef''"
    by (rule list.set_intros(1))
  show ?thesis
  proof (cases "v < 0")
    case True
    then have "format_x v = CHR ''-'' # hex_nat (nat (- v))"
      by (simp add: format_x_def)
    then show ?thesis
      using set_Cons_subset [OF sign digits] by simp
  next
    case False
    then have "format_x v = hex_nat (nat v)"
      by (simp add: format_x_def)
    then show ?thesis
      using digits by simp
  qed
qed

section \<open>Rendering and index of a token offset\<close>

text \<open>
  Claim C7. The integer conversion of a \<^verbatim>\<open>DNTokenOffsetAddress\<close> is token + offset. Its
  rendering is \<^verbatim>\<open>token(0x\<close>T\<^verbatim>\<open>)+(0x\<close>O\<^verbatim>\<open>)\<close>, where T and O are the hexadecimal numerals
  of token and offset: both occur in the string, they use lowercase digits only (and a
  minus sign for a negative token), and they denote the two fields. For token 0x06000001
  and offset 0x10 the rendering is \<^verbatim>\<open>token(0x6000001)+(0x10)\<close> and the index is
  0x06000011.
\<close>

theorem DNTokenOffsetAddress_index_and_repr:
  "DNTokenOffsetAddress_index d = token d + offset d
   \<and> py_repr (Addr (DNTokenOffsetAddress d))
       = Inr (''token(0x'' @ format_x (token d) @ '')+(0x'' @ format_x (offset d) @ '')'')
   \<and> (\<exists>r. py_repr (Addr (DNTokenOffsetAddress d)) = Inr r
          \<and> sublist (format_x (token d)) r \<and> sublist (format_x (offset d)) r)
   \<and> parse_x (format_x (token d)) = token d
   \<and> parse_x (format_x (offset d)) = offset d
   \<and> set (format_x (token d)) \<subseteq> set ''-0123456789abcdef''
   \<and> set (format_x (offset d)) \<subseteq> set ''-0123456789abcdef''
   \<and> DNTokenOffsetAddress_index \<lparr>token = 0x06000001, offset = 0x10\<rparr> = 0x06000011
   \<and> py_repr (Addr (DNTokenOffsetAddress \<lparr>token = 0x06000001, offset = 0x10\<rparr>))
       = Inr ''token(0x6000001)+(0x10)''"
proof -
  have repr: "py_repr (Addr (DNTokenOffsetAddress d))
       = Inr (''token(0x'' @ format_x (token d) @ '')+(0x'' @ format_x (offset d) @ '')'')"
    by (simp add: DNTokenOffsetAddress_repr_def)
  have sub1: "sublist (format_x (token d))
       (''token(0x'' @ format_x (token d) @ '')+(0x'' @ format_x (offset d) @ '')'')"
    by (rule sublist_appendI)
  have "sublist (format_x (offset d))
       ((''token(0x'' @ format_x (token d) @ '')+(0x'') @ format_x (offset d) @ '')'')"
    by (rule sublist_appendI)
  then have sub2: "sublist (format_x (offset d))
       (''token(0x'' @ format_x (token d) @ '')+(0x'' @ format_x (offset d) @ '')'')"
    by simp
  have ex: "py_repr (Addr (DNTokenOffsetAddress \<lparr>token = 0x06000001, offset = 0x10\<rparr>))
       = Inr ''token(0x6000001)+(0x10)''"
    by (simp add: DNTokenOffsetAddress_repr_def numeral_defs)
  have idx: "DNTokenOffsetAddress_index \<lparr>token = 0x06000001, offset = 0x10\<rparr> = 0x06000011"
    by (simp add: DNTokenOffsetAddress_index_def)
  have contains: "\<exists>r. py_repr (Addr (DNTokenOffsetAddress d)) = Inr r
          \<and> sublist (format_x (token d)) r \<and> sublist (format_x (offset d)) r"
    using repr sub1 sub2 by blast
  have index: "DNTokenOffsetAddress_index d = token d + offset d"
    by (rule DNTokenOffsetAddress_index_def)
  show ?thesis
    by (intro conjI index repr contains parse_x_format_x format_x_lowercase idx ex)
qed

section \<open>Equality across variants\<close>

text \<open>
  What \<^verbatim>\<open>a == b\<close> does for every pair of addresses, by the classes of the operands.
\<close>

lemma py_eq_cross_variant:
  "variant_of a \<noteq> variant_of b \<Longrightarrow> a \<noteq> NO_ADDRESS \<Longrightarrow> b \<noteq> NO_ADDRESS \<Longrightarrow>
     \<not> (int_backed a \<and> int_backed b) \<Longrightarrow>
     py_eq (Addr a) (Addr b) =
       (if variant_of a \<in> {Process, Thread}
           \<or> (int_backed a \<and> variant_of b \<in> {Process, Thread})
        then Inl AssertionError else Inl AttributeError)"
  by (cases a; cases b) (simp_all add: operator_defs method_defs)

text \<open>
  Claim C2 says that \<^verbatim>\<open>a == b\<close> returns false without raising whenever \<open>a\<close> and \<open>b\<close>
  are of two different variants, neither the sentinel. The code does otherwise, in two
  ways. A \<^verbatim>\<open>ProcessAddress\<close> compared with an \<^verbatim>\<open>AbsoluteVirtualAddress\<close> fails the
  assertion of \<^verbatim>\<open>ProcessAddress.__eq__\<close>; and an \<^verbatim>\<open>AbsoluteVirtualAddress\<close> and a
  \<^verbatim>\<open>RelativeVirtualAddress\<close> with the same value are equal, by \<^verbatim>\<open>int.__eq__\<close>.
\<close>

theorem cross_variant_eq_counterexample:
  "variant_of (ProcessAddress \<lparr>ppid = 0, pid = 1\<rparr>) \<noteq> variant_of (AbsoluteVirtualAddress 4096)
   \<and> py_eq (Addr (ProcessAddress \<lparr>ppid = 0, pid = 1\<rparr>)) (Addr (AbsoluteVirtualAddress 4096))
       = Inl AssertionError
   \<and> variant_of (AbsoluteVirtualAddress 4096) \<noteq> variant_of (RelativeVirtualAddress 4096)
   \<and> py_eq (Addr (AbsoluteVirtualAddress 4096)) (Addr (RelativeVirtualAddress 4096)) = Inr True"
  by (simp add: operator_defs method_defs)

text \<open>
  Claim C2, amended. For \<open>a\<close> and \<open>b\<close> of two different variants, neither the sentinel,
  \<^verbatim>\<open>a == b\<close> returns a boolean exactly when both variants derive from \<^verbatim>\<open>int\<close>, and the
  boolean is the equality of the two values. In every other case it raises:
  \<open>AssertionError\<close> when the method that answers is that of a \<^verbatim>\<open>ProcessAddress\<close> or
  \<^verbatim>\<open>ThreadAddress\<close> (as the left operand, or as the right operand of a variant derived
  from \<^verbatim>\<open>int\<close>), and \<open>AttributeError\<close> when it is that of a \<^verbatim>\<open>DynamicAddress\<close> or
  \<^verbatim>\<open>DNTokenOffsetAddress\<close>.
\<close>

theorem cross_variant_eq:
  assumes "variant_of a \<noteq> variant_of b" and "a \<noteq> NO_ADDRESS" and "b \<noteq> NO_ADDRESS"
  shows "py_eq (Addr a) (Addr b) =
    (if int_backed a \<and> int_backed b then Inr (address_int a = address_int b)
     else if variant_of a \<in> {Process, Thread}
             \<or> (int_backed a \<and> variant_of b \<in> {Process, Thread})
          then Inl AssertionError
          else Inl AttributeError)"
proof (cases "int_backed a \<and> int_backed b")
  case True
  then obtain m n where "address_int a = Some m" and "address_int b = Some n"
    by (auto simp add: int_backed_def)
  with True show ?thesis
    by (simp add: py_eq_int_backed)
next
  case False
  with assms have "py_eq (Addr a) (Addr b) =
       (if variant_of a \<in> {Process, Thread}
           \<or> (int_backed a \<and> variant_of b \<in> {Process, Thread})
        then Inl AssertionError else Inl AttributeError)"
    by (rule py_eq_cross_variant)
  then show ?thesis
    by (simp only: False if_False)
qed

theorem cross_variant_eq_witness:
  "variant_of (DNTokenAddress 7) \<noteq> variant_of (DynamicAddress \<lparr>id_field = 7, return_address = 0\<rparr>)
   \<and> DNTokenAddress 7 \<noteq> NO_ADDRESS
   \<and> DynamicAddress \<lparr>id_field = 7, return_address = 0\<rparr> \<noteq> NO_ADDRESS
   \<and> py_eq (Addr (DNTokenAddress 7)) (Addr (DynamicAddress \<lparr>id_field = 7, return_address = 0\<rparr>))
       = Inl AttributeError"
  using cross_variant_eq [of "DNTokenAddress 7" "DynamicAddress \<lparr>id_field = 7, return_address = 0\<rparr>"]
  by (simp add: int_backed_def)

section \<open>Construction, and the operations on constructed values\<close>

text \<open>Where each operation fails, over all pairs of addresses.\<close>

lemma py_eq_fails_iff:
  "isl (py_eq (Addr a) (Addr b)) =
     (\<not> (variant_of a = variant_of b \<or> (int_backed a \<and> int_backed b) \<or> a = NO_ADDRESS
          \<or> (int_backed a \<and> b = NO_ADDRESS)))"
proof (cases "variant_of a = variant_of b")
  case True
  then show ?thesis
    by (simp add: py_eq_same_variant)
next
  case False
  then show ?thesis
    by (cases a; cases b) (simp_all add: operator_defs method_defs)
qed

lemma py_lt_fails_iff:
  "isl (py_lt (Addr a) (Addr b)) =
     (\<not> (variant_of a = variant_of b \<or> (int_backed a \<and> int_backed b) \<or> a = NO_ADDRESS))"
proof (cases "variant_of a = variant_of b")
  case True
  then show ?thesis
    by (simp add: py_lt_same_variant)
next
  case False
  then show ?thesis
    by (cases a; cases b) (simp_all add: operator_defs method_defs)
qed

lemma py_repr_fails_iff:
  "isl (py_repr (Addr a))
     = list_ex (\<lambda>v. 10 ^ int_max_str_digits \<le> \<bar>v\<bar>) (decimal_fields a)"
  by (cases a)
     (simp_all add: ProcessAddress_repr_def ThreadAddress_repr_def DynamicAddress_repr_def
       str_int_limit)

lemma py_repr_error:
  "(py_repr (Addr a) = Inl ValueError)
     = list_ex (\<lambda>v. 10 ^ int_max_str_digits \<le> \<bar>v\<bar>) (decimal_fields a)"
  by (cases a)
     (simp_all add: ProcessAddress_repr_def ThreadAddress_repr_def DynamicAddress_repr_def
       str_int_limit)

lemma huge_pid_constructed:
  "init_ProcessAddress (10 ^ int_max_str_digits) 0
     = Inr (ProcessAddress \<lparr>ppid = 0, pid = 10 ^ int_max_str_digits\<rparr>)"
  by (simp add: init_ProcessAddress_def)

lemma huge_pid_repr:
  "py_repr (Addr (ProcessAddress \<lparr>ppid = 0, pid = 10 ^ int_max_str_digits\<rparr>)) = Inl ValueError"
  using py_repr_error [of "ProcessAddress \<lparr>ppid = 0, pid = 10 ^ int_max_str_digits\<rparr>"]
  by simp

text \<open>
  Claim C6 says that, once a value is constructed, none of equality, ordering, hashing
  and rendering fails. The code does otherwise for equality and ordering between values
  of different variants: with a process and a file offset, both accepted by their
  constructors, \<^verbatim>\<open>==\<close> raises \<open>AssertionError\<close>, and \<^verbatim>\<open><\<close> raises \<open>AttributeError\<close>
  one way round and \<open>TypeError\<close> the other. It does otherwise for rendering too: the
  constructor accepts the pid \<open>10 ^ 4300\<close>, whose decimal numeral has 4301 digits, and
  rendering that process raises \<open>ValueError\<close>.
\<close>

theorem operations_fail_counterexample:
  "init_ProcessAddress 1 0 = Inr (ProcessAddress \<lparr>ppid = 0, pid = 1\<rparr>)
   \<and> new_FileOffsetAddress 512 = Inr (FileOffsetAddress 512)
   \<and> py_eq (Addr (ProcessAddress \<lparr>ppid = 0, pid = 1\<rparr>)) (Addr (FileOffsetAddress 512))
       = Inl AssertionError
   \<and> py_lt (Addr (ProcessAddress \<lparr>ppid = 0, pid = 1\<rparr>)) (Addr (FileOffsetAddress 512))
       = Inl AttributeError
   \<and> py_lt (Addr (FileOffsetAddress 512)) (Addr (ProcessAddress \<lparr>ppid = 0, pid = 1\<rparr>))
       = Inl TypeError
   \<and> init_ProcessAddress (10 ^ 4300) 0 = Inr (ProcessAddress \<lparr>ppid = 0, pid = 10 ^ 4300\<rparr>)
   \<and> py_repr (Addr (ProcessAddress \<lparr>ppid = 0, pid = 10 ^ 4300\<rparr>)) = Inl ValueError"
proof -
  have compare: "init_ProcessAddress 1 0 = Inr (ProcessAddress \<lparr>ppid = 0, pid = 1\<rparr>)
     \<and> new_FileOffsetAddress 512 = Inr (FileOffsetAddress 512)
     \<and> py_eq (Addr (ProcessAddress \<lparr>ppid = 0, pid = 1\<rparr>)) (Addr (FileOffsetAddress 512))
         = Inl AssertionError
     \<and> py_lt (Addr (ProcessAddress \<lparr>ppid = 0, pid = 1\<rparr>)) (Addr (FileOffsetAddress 512))
         = Inl AttributeError
     \<and> py_lt (Addr (FileOffsetAddress 512)) (Addr (ProcessAddress \<lparr>ppid = 0, pid = 1\<rparr>))
         = Inl TypeError"
    by (simp add: init_ProcessAddress_def new_FileOffsetAddress_def operator_defs method_defs)
  have render: "init_ProcessAddress (10 ^ 4300) 0
       = Inr (ProcessAddress \<lparr>ppid = 0, pid = 10 ^ 4300\<rparr>)
     \<and> py_repr (Addr (ProcessAddress \<lparr>ppid = 0, pid = 10 ^ 4300\<rparr>)) = Inl ValueError"
    using huge_pid_constructed huge_pid_repr unfolding int_max_str_digits_def by (rule conjI)
  from compare render show ?thesis
    by (simp only: simp_thms)
qed

text \<open>
  Claim C6, amended. A constructor raises (an \<open>AssertionError\<close>) exactly when a field
  that must not be negative is negative, or pid is not positive; otherwise it returns the
  object with the given fields. \<^verbatim>\<open>RelativeVirtualAddress\<close> and \<^verbatim>\<open>DNTokenAddress\<close> accept
  every integer, and so does the token of a \<^verbatim>\<open>DNTokenOffsetAddress\<close>.
  \<^verbatim>\<open>FileOffsetAddress(-1)\<close> fails and \<^verbatim>\<open>FileOffsetAddress(0)\<close> succeeds. On constructed
  values:
  \<^item> hashing never fails;
  \<^item> rendering fails exactly when a field that is rendered in decimal (the pid of a
    process and its ppid when positive, the tid of a thread, the id of a dynamic address)
    has more than \<open>int_max_str_digits\<close>, that is 4300, decimal digits, and the error
    is \<open>ValueError\<close>;
  \<^item> \<^verbatim>\<open>a == b\<close> fails exactly when \<open>a\<close> and \<open>b\<close> are of different variants, not both
    derived from \<^verbatim>\<open>int\<close>, \<open>a\<close> is not the sentinel, and it is not the case that \<open>a\<close>
    is derived from \<^verbatim>\<open>int\<close> and \<open>b\<close> is the sentinel;
  \<^item> \<^verbatim>\<open>a < b\<close> fails exactly when \<open>a\<close> and \<open>b\<close> are of different variants, not both
    derived from \<^verbatim>\<open>int\<close>, and \<open>a\<close> is not the sentinel.
\<close>

theorem construction_and_operations:
  "(new_AbsoluteVirtualAddress v = Inl AssertionError) = (v < 0)
   \<and> (new_AbsoluteVirtualAddress v = Inr (AbsoluteVirtualAddress v)) = (0 \<le> v)
   \<and> (new_FileOffsetAddress v = Inl AssertionError) = (v < 0)
   \<and> (new_FileOffsetAddress v = Inr (FileOffsetAddress v)) = (0 \<le> v)
   \<and> new_RelativeVirtualAddress v = Inr (RelativeVirtualAddress v)
   \<and> new_DNTokenAddress v = Inr (DNTokenAddress v)
   \<and> (init_ProcessAddress i j = Inl AssertionError) = (j < 0 \<or> i \<le> 0)
   \<and> (init_ProcessAddress i j = Inr (ProcessAddress \<lparr>ppid = j, pid = i\<rparr>)) = (0 \<le> j \<and> 0 < i)
   \<and> (init_ThreadAddress p i = Inl AssertionError) = (i < 0)
   \<and> (init_ThreadAddress p i = Inr (ThreadAddress \<lparr>process = p, tid = i\<rparr>)) = (0 \<le> i)
   \<and> (init_DynamicAddress i j = Inl AssertionError) = (i < 0 \<or> j < 0)
   \<and> (init_DynamicAddress i j = Inr (DynamicAddress \<lparr>id_field = i, return_address = j\<rparr>))
       = (0 \<le> i \<and> 0 \<le> j)
   \<and> (init_DNTokenOffsetAddress i j = Inl AssertionError) = (j < 0)
   \<and> (init_DNTokenOffsetAddress i j = Inr (DNTokenOffsetAddress \<lparr>token = i, offset = j\<rparr>))
       = (0 \<le> j)
   \<and> new_FileOffsetAddress (- 1) = Inl AssertionError
   \<and> new_FileOffsetAddress 0 = Inr (FileOffsetAddress 0)
   \<and> \<not> isl (py_hash B (Addr a))
   \<and> isl (py_repr (Addr a))
       = list_ex (\<lambda>v. 10 ^ int_max_str_digits \<le> \<bar>v\<bar>) (decimal_fields a)
   \<and> (py_repr (Addr a) = Inl ValueError)
       = list_ex (\<lambda>v. 10 ^ int_max_str_digits \<le> \<bar>v\<bar>) (decimal_fields a)
   \<and> isl (py_eq (Addr a) (Addr b))
       = (\<not> (variant_of a = variant_of b \<or> (int_backed a \<and> int_backed b) \<or> a = NO_ADDRESS
              \<or> (int_backed a \<and> b = NO_ADDRESS)))
   \<and> isl (py_lt (Addr a) (Addr b))
       = (\<not> (variant_of a = variant_of b \<or> (int_backed a \<and> int_backed b) \<or> a = NO_ADDRESS))"
proof -
  have constructors:
    "(new_AbsoluteVirtualAddress v = Inl AssertionError) = (v < 0)
     \<and> (new_AbsoluteVirtualAddress v = Inr (AbsoluteVirtualAddress v)) = (0 \<le> v)
     \<and> (new_FileOffsetAddress v = Inl AssertionError) = (v < 0)
     \<and> (new_FileOffsetAddress v = Inr (FileOffsetAddress v)) = (0 \<le> v)
     \<and> new_RelativeVirtualAddress v = Inr (RelativeVirtualAddress v)
     \<and> new_DNTokenAddress v = Inr (DNTokenAddress v)"
    by (simp add: new_AbsoluteVirtualAddress_def new_FileOffsetAddress_def
        new_RelativeVirtualAddress_def new_DNTokenAddress_def)
  have c_process: "(init_ProcessAddress i j = Inl AssertionError) = (j < 0 \<or> i \<le> 0)
     \<and> (init_ProcessAddress i j = Inr (ProcessAddress \<lparr>ppid = j, pid = i\<rparr>)) = (0 \<le> j \<and> 0 < i)"
    by (auto simp add: init_ProcessAddress_def)
  have c_thread: "(init_ThreadAddress p i = Inl AssertionError) = (i < 0)
     \<and> (init_ThreadAddress p i = Inr (ThreadAddress \<lparr>process = p, tid = i\<rparr>)) = (0 \<le> i)"
    by (simp add: init_ThreadAddress_def)
  have c_dynamic: "(init_DynamicAddress i j = Inl AssertionError) = (i < 0 \<or> j < 0)
     \<and> (init_DynamicAddress i j = Inr (DynamicAddress \<lparr>id_field = i, return_address = j\<rparr>))
         = (0 \<le> i \<and> 0 \<le> j)"
    by (auto simp add: init_DynamicAddress_def)
  have c_token: "(init_DNTokenOffsetAddress i j = Inl AssertionError) = (j < 0)
     \<and> (init_DNTokenOffsetAddress i j = Inr (DNTokenOffsetAddress \<lparr>token = i, offset = j\<rparr>))
         = (0 \<le> j)"
    by (simp add: init_DNTokenOffsetAddress_def)
  have c_file: "new_FileOffsetAddress (- 1) = Inl AssertionError
     \<and> new_FileOffsetAddress 0 = Inr (FileOffsetAddress 0)"
    by (simp add: new_FileOffsetAddress_def)
  have hashing: "\<not> isl (py_hash B (Addr a))"
    by (cases a) simp_all
  show ?thesis
    by (intro conjI constructors [THEN conjunct1]
        constructors [THEN conjunct2, THEN conjunct1]
        constructors [THEN conjunct2, THEN conjunct2, THEN conjunct1]
        constructors [THEN conjunct2, THEN conjunct2, THEN conjunct2, THEN conjunct1]
        constructors [THEN conjunct2, THEN conjunct2, THEN conjunct2, THEN conjunct2, THEN conjunct1]
        constructors [THEN conjunct2, THEN conjunct2, THEN conjunct2, THEN conjunct2, THEN conjunct2]
        c_process [THEN conjunct1] c_process [THEN conjunct2]
        c_thread [THEN conjunct1] c_thread [THEN conjunct2]
        c_dynamic [THEN conjunct1] c_dynamic [THEN conjunct2]
        c_token [THEN conjunct1] c_token [THEN conjunct2]
        c_file [THEN conjunct1] c_file [THEN conjunct2]
        hashing py_repr_fails_iff py_repr_error py_eq_fails_iff py_lt_fails_iff)
qed

theorem construction_and_operations_witness:
  "init_ThreadAddress \<lparr>ppid = 0, pid = 1\<rparr> 2
       = Inr (ThreadAddress \<lparr>process = \<lparr>ppid = 0, pid = 1\<rparr>, tid = 2\<rparr>)
   \<and> init_ThreadAddress \<lparr>ppid = 0, pid = 1\<rparr> (- 2) = Inl AssertionError
   \<and> \<not> isl (py_hash cpython (Addr (ThreadAddress \<lparr>process = \<lparr>ppid = 0, pid = 1\<rparr>, tid = 2\<rparr>)))
   \<and> py_repr (Addr (ThreadAddress \<lparr>process = \<lparr>ppid = 0, pid = 1\<rparr>, tid = 2\<rparr>))
       = Inr ''thread(tid: 2)''
   \<and> \<not> isl (py_repr (Addr (ThreadAddress \<lparr>process = \<lparr>ppid = 0, pid = 1\<rparr>, tid = 2\<rparr>)))
   \<and> \<not> isl (py_eq (Addr (ThreadAddress \<lparr>process = \<lparr>ppid = 0, pid = 1\<rparr>, tid = 2\<rparr>))
                  (Addr (ThreadAddress \<lparr>process = \<lparr>ppid = 0, pid = 1\<rparr>, tid = 3\<rparr>)))
   \<and> \<not> isl (py_lt (Addr (ThreadAddress \<lparr>process = \<lparr>ppid = 0, pid = 1\<rparr>, tid = 2\<rparr>))
                  (Addr (ThreadAddress \<lparr>process = \<lparr>ppid = 0, pid = 1\<rparr>, tid = 3\<rparr>)))
   \<and> isl (py_eq (Addr (ThreadAddress \<lparr>process = \<lparr>ppid = 0, pid = 1\<rparr>, tid = 2\<rparr>))
              (Addr (FileOffsetAddress 512)))
   \<and> \<not> isl (py_eq (Addr (FileOffsetAddress 512))
                  (Addr NO_ADDRESS))
   \<and> isl (py_lt (Addr (FileOffsetAddress 512)) (Addr NO_ADDRESS))"
  using construction_and_operations
    [of 0 1 0 "\<lparr>ppid = 0, pid = 1\<rparr>" cpython
        "ThreadAddress \<lparr>process = \<lparr>ppid = 0, pid = 1\<rparr>, tid = 2\<rparr>"
        "ThreadAddress \<lparr>process = \<lparr>ppid = 0, pid = 1\<rparr>, tid = 3\<rparr>"]
    construction_and_operations
    [of 0 1 0 "\<lparr>ppid = 0, pid = 1\<rparr>" cpython
        "ThreadAddress \<lparr>process = \<lparr>ppid = 0, pid = 1\<rparr>, tid = 2\<rparr>"
        "FileOffsetAddress 512"]
    construction_and_operations
    [of 0 1 0 "\<lparr>ppid = 0, pid = 1\<rparr>" cpython "FileOffsetAddress 512" NO_ADDRESS]
  by (simp add: init_ThreadAddress_def ThreadAddress_repr_def str_int_below_ten below_limit
      int_backed_def numeral_defs)

section \<open>Rendering the result document\<close>

lemma model_dump_json_not_null: "v \<noteq> JNull \<Longrightarrow> model_dump_json v \<noteq> JNull"
  by (cases v) simp_all

lemma no_null_fields_model_dump_json: "no_null_fields (model_dump_json j)"
proof (induction j)
  case (JArray xs)
  then show ?case
    by (simp add: list_all_iff)
next
  case (JObject fs)
  then show ?case
    by (fastforce simp add: list_all_iff)
qed simp_all

lemma address_roundtrip:
  "address_of_json (Some (model_dump_json (address_to_json a))) = Some a"
  by (cases a) (simp_all add: address_of_json_def address_to_json_def field_of_def)

lemma match_address_roundtrip:
  "address_of_json (field_of ''address'' (model_dump_json (match_to_json m))) = Some (fst m)"
proof -
  have "field_of ''address'' (model_dump_json (match_to_json m))
          = Some (model_dump_json (address_to_json (fst m)))"
    by (simp add: match_to_json_def field_of_def address_to_json_def)
  then show ?thesis
    by (simp only: address_roundtrip)
qed

lemma document_addresses_render:
  "document_addresses
     (model_dump_json (JObject [(''meta'', meta), (''rules'', rules),
                                (''matches'', JArray (map match_to_json capabilities))]))
   = map (\<lambda>m. field_of ''address'' (model_dump_json (match_to_json m))) capabilities"
  by (simp add: document_addresses_def field_of_def comp_def)

text \<open>
  Claim C9. For every metadata, rule set and list of findings, keyed by addresses of any
  variant or by the sentinel, \<^verbatim>\<open>render\<close> returns a document and does not raise; no
  field of the document is null; and the serialized addresses of the findings, in their
  order, reconstruct to the addresses of the findings, variant and fields. For a finding
  at \<^verbatim>\<open>FileOffsetAddress(0x200)\<close> and one at the sentinel the document holds both.
\<close>

theorem render_result_document:
  "\<exists>doc. render meta rules capabilities = Inr doc
      \<and> no_null_fields doc
      \<and> map address_of_json (document_addresses doc) = map (\<lambda>m. Some (fst m)) capabilities"
proof -
  let ?doc = "model_dump_json (JObject [(''meta'', meta), (''rules'', rules),
                (''matches'', JArray (map match_to_json capabilities))])"
  have returns: "render meta rules capabilities = Inr ?doc"
    by (simp add: render_def from_capa_def)
  have clean: "no_null_fields ?doc"
    by (rule no_null_fields_model_dump_json)
  have "map address_of_json (document_addresses ?doc)
          = map (\<lambda>m. address_of_json (field_of ''address'' (model_dump_json (match_to_json m))))
              capabilities"
    by (simp only: document_addresses_render map_map comp_def)
  then have lossless: "map address_of_json (document_addresses ?doc)
          = map (\<lambda>m. Some (fst m)) capabilities"
    by (simp only: match_address_roundtrip)
  from returns clean lossless show ?thesis
    by blast
qed

theorem render_result_document_witness:
  "render (JObject [(''flavor'', JString ''static''), (''argv'', JNull)]) (JArray [])
     [(FileOffsetAddress 0x200, JObject [(''success'', JInt 1)]), (NO_ADDRESS, JNull)]
   = Inr (JObject
       [(''meta'', JObject [(''flavor'', JString ''static'')]),
        (''rules'', JArray []),
        (''matches'', JArray
          [JObject [(''address'', JObject [(''type'', JString ''FileOffsetAddress''),
                                          (''value'', JInt 512)]),
                    (''result'', JObject [(''success'', JInt 1)])],
           JObject [(''address'', JObject [(''type'', JString ''NoAddress'')])]])])
   \<and> map address_of_json (document_addresses (JObject
       [(''meta'', JObject [(''flavor'', JString ''static'')]),
        (''rules'', JArray []),
        (''matches'', JArray
          [JObject [(''address'', JObject [(''type'', JString ''FileOffsetAddress''),
                                          (''value'', JInt 512)]),
                    (''result'', JObject [(''success'', JInt 1)])],
           JObject [(''address'', JObject [(''type'', JString ''NoAddress'')])]])]))
     = [Some (FileOffsetAddress 0x200), Some NO_ADDRESS]"
proof -
  have rendered: "render (JObject [(''flavor'', JString ''static''), (''argv'', JNull)]) (JArray [])
     [(FileOffsetAddress 0x200, JObject [(''success'', JInt 1)]), (NO_ADDRESS, JNull)]
   = Inr (JObject
       [(''meta'', JObject [(''flavor'', JString ''static'')]),
        (''rules'', JArray []),
        (''matches'', JArray
          [JObject [(''address'', JObject [(''type'', JString ''FileOffsetAddress''),
                                          (''value'', JInt 512)]),
                    (''result'', JObject [(''success'', JInt 1)])],
           JObject [(''address'', JObject [(''type'', JString ''NoAddress'')])]])])"
    by (simp add: render_def from_capa_def match_to_json_def address_to_json_def)
  from render_result_document
    [of "JObject [(''flavor'', JString ''static''), (''argv'', JNull)]" "JArray []"
        "[(FileOffsetAddress 0x200, JObject [(''success'', JInt 1)]), (NO_ADDRESS, JNull)]"]
  show ?thesis
    unfolding rendered by simp
qed

end
